theory Spec2Isabelle
  imports Main
begin

section \<open>Python values held by cells\<close>

text \<open>
  The analysis engine looks at a cell value in two ways only: its truth value
  (\<^verbatim>\<open>if cell.value\<close>) and its rendering by \<^verbatim>\<open>str()\<close>.  The values modelled are
  the scalars a loaded workbook holds: \<^verbatim>\<open>None\<close>, strings, integers and booleans.
\<close>

datatype pyval = PNone | PBool bool | PInt int | PStr string

fun truthy :: "pyval \<Rightarrow> bool" where
  "truthy PNone = False"
| "truthy (PBool b) = b"
| "truthy (PInt i) = (i \<noteq> 0)"
| "truthy (PStr s) = (s \<noteq> [])"

definition digit_char :: "nat \<Rightarrow> char" where
  "digit_char d = char_of (48 + d)"

function str_nat :: "nat \<Rightarrow> string" where
  "str_nat n = (if n < 10 then [digit_char n] else str_nat (n div 10) @ [digit_char (n mod 10)])"
  by pat_completeness auto
termination
  by (relation "measure id") auto

declare str_nat.simps [simp del]

definition str_int :: "int \<Rightarrow> string" where
  "str_int i = (if i < 0 then CHR ''-'' # str_nat (nat (- i)) else str_nat (nat i))"

fun py_str :: "pyval \<Rightarrow> string" where
  "py_str PNone = ''None''"
| "py_str (PBool b) = (if b then ''True'' else ''False'')"
| "py_str (PInt i) = str_int i"
| "py_str (PStr s) = s"

section \<open>The workbook model\<close>

text \<open>
  \<^verbatim>\<open>get_column_letter\<close> of the spreadsheet library, by the spreadsheet convention
  A, B, ..., Z, AA, ...: repeated \<^verbatim>\<open>divmod\<close> by 26 in which a remainder of 0 stands
  for Z and borrows one from the quotient.  The library defines it on the column numbers
  1 to 18278 (A to ZZZ), which are the columns a loaded worksheet can have, and raises
  \<^verbatim>\<open>ValueError\<close> on any other number; the function below is its extension to every
  number and leaves that check out.  On a loaded worksheet the two differ in one place
  of the engine: the coordinate of the cell to the right of a question that stands in
  column ZZZ, where the library raises and no report is returned, while the function
  below gives the letters AAAA.
\<close>

function get_column_letter :: "nat \<Rightarrow> string" where
  "get_column_letter n =
     (if n = 0 then []
      else if n mod 26 = 0 then get_column_letter (n div 26 - 1) @ [char_of (26 + 64 :: nat)]
      else get_column_letter (n div 26) @ [char_of (n mod 26 + 64)])"
  by pat_completeness auto
termination
  by (relation "measure id") auto

declare get_column_letter.simps [simp del]

record comment =
  cm_text :: string
  cm_author :: "pyval option"

text \<open>
  A comment object whose \<^verbatim>\<open>author\<close> attribute is missing has \<open>cm_author = None\<close>;
  \<open>Some PNone\<close> is an attribute that is present and holds \<^verbatim>\<open>None\<close>.
\<close>

record cell =
  cell_row :: nat
  cell_column :: nat
  cell_value :: pyval
  cell_comment :: "comment option"

definition coordinate :: "cell \<Rightarrow> string" where
  "coordinate c = get_column_letter (cell_column c) @ str_nat (cell_row c)"

text \<open>
  A cell object defines neither \<^verbatim>\<open>__bool__\<close> nor \<^verbatim>\<open>__len__\<close>: it is true in a
  condition, whatever it holds.  The same goes for a comment object.
\<close>

definition cell_truthy :: "cell \<Rightarrow> bool" where
  "cell_truthy c = True"

record worksheet =
  title :: string
  sheet_state :: string
  max_row :: nat
  max_column :: nat
  stored :: "nat \<times> nat \<Rightarrow> (pyval \<times> comment option) option"
  row_hidden :: "nat \<Rightarrow> bool"
  column_hidden :: "string \<Rightarrow> bool"

text \<open>
  \<open>stored\<close> is what the file holds at a (row, column) position; \<open>row_hidden n\<close> is
  \<^verbatim>\<open>ws.row_dimensions[n].hidden\<close> and \<open>column_hidden l\<close> is
  \<^verbatim>\<open>ws.column_dimensions[l].hidden\<close>.  \<^verbatim>\<open>ws.cell(row, column)\<close> gives the cell at a
  position, an empty one where the file holds nothing.
\<close>

definition ws_cell :: "worksheet \<Rightarrow> nat \<Rightarrow> nat \<Rightarrow> cell" where
  "ws_cell ws r c =
     (case stored ws (r, c) of
        None \<Rightarrow> \<lparr>cell_row = r, cell_column = c, cell_value = PNone, cell_comment = None\<rparr>
      | Some (v, cm) \<Rightarrow> \<lparr>cell_row = r, cell_column = c, cell_value = v, cell_comment = cm\<rparr>)"

text \<open>\<^verbatim>\<open>ws.iter_rows()\<close>: the rows 1..max_row, each with the columns 1..max_column.\<close>

definition iter_rows :: "worksheet \<Rightarrow> cell list list" where
  "iter_rows ws =
     map (\<lambda>r. map (\<lambda>c. ws_cell ws r c) [1..<Suc (max_column ws)]) [1..<Suc (max_row ws)]"

type_synonym workbook = "worksheet list"

definition sheetnames :: "workbook \<Rightarrow> string list" where
  "sheetnames wb = map title wb"

section \<open>JSON values, exceptions and the library\<close>

datatype json =
    JNull
  | JBool bool
  | JInt int
  | JStr string
  | JList "json list"
  | JObj "(string \<times> json) list"

text \<open>
  A decoded JSON object is a dictionary; \<open>JObj\<close> holds its items and \<open>map_of\<close>
  looks a key up.  \<open>JNull\<close> is Python's \<^verbatim>\<open>None\<close>.  Numbers with a fraction are
  left out: the handler would only echo one as an id or fail on it as on an integer.
\<close>

datatype exn =
    LoadError string
  | DecodeError string
  | UnknownTool json
  | UnknownMethod json
  | AttributeError string
  | TypeError string
  | KeyError string

type_synonym bytes = string

text \<open>
  The calls into libraries, taken as parameters: \<^verbatim>\<open>json.loads\<close>,
  \<^verbatim>\<open>base64.b64decode\<close>, the spreadsheet library's \<^verbatim>\<open>load_workbook\<close> (each gives its
  result or the message of the exception it raises) and \<^verbatim>\<open>repr\<close> of a decoded
  JSON list or dictionary.
\<close>

record library =
  json_loads :: "string \<Rightarrow> string + json"
  b64decode :: "json \<Rightarrow> string + bytes"
  load_workbook :: "bytes \<Rightarrow> string + workbook"
  container_repr :: "json \<Rightarrow> string"

definition quote :: "string \<Rightarrow> string" where
  "quote s = CHR 0x27 # s @ [CHR 0x27]"

fun type_name :: "json \<Rightarrow> string" where
  "type_name JNull = ''NoneType''"
| "type_name (JBool b) = ''bool''"
| "type_name (JInt i) = ''int''"
| "type_name (JStr s) = ''str''"
| "type_name (JList xs) = ''list''"
| "type_name (JObj d) = ''dict''"

fun format_json :: "library \<Rightarrow> json \<Rightarrow> string" where
  "format_json lib JNull = ''None''"
| "format_json lib (JBool b) = (if b then ''True'' else ''False'')"
| "format_json lib (JInt i) = str_int i"
| "format_json lib (JStr s) = s"
| "format_json lib v = container_repr lib v"

fun str_exn :: "library \<Rightarrow> exn \<Rightarrow> string" where
  "str_exn lib (LoadError m) = m"
| "str_exn lib (DecodeError m) = m"
| "str_exn lib (UnknownTool v) = ''Unknown tool: '' @ format_json lib v"
| "str_exn lib (UnknownMethod v) = ''Unknown method: '' @ format_json lib v"
| "str_exn lib (AttributeError m) = m"
| "str_exn lib (TypeError m) = m"
| "str_exn lib (KeyError m) = m"

text \<open>\<^verbatim>\<open>wb[sheet_name]\<close>: the first sheet of that title, or a \<^verbatim>\<open>KeyError\<close>.\<close>

definition getitem :: "workbook \<Rightarrow> string \<Rightarrow> exn + worksheet" where
  "getitem wb sheet_name =
     (case find (\<lambda>ws. title ws = sheet_name) wb of
        None \<Rightarrow> Inl (KeyError (quote (''Worksheet '' @ sheet_name @ '' does not exist.'')))
      | Some ws \<Rightarrow> Inr ws)"

text \<open>
  \<^verbatim>\<open>load_workbook_from_buffer\<close>: the buffer is written to a temporary file, which
  fails on \<^verbatim>\<open>None\<close>, and the file is parsed.
\<close>

definition load_workbook_from_buffer :: "library \<Rightarrow> bytes option \<Rightarrow> exn + workbook" where
  "load_workbook_from_buffer lib file_buffer =
     (case file_buffer of
        None \<Rightarrow> Inl (TypeError (''a bytes-like object is required, not '' @ quote ''NoneType''))
      | Some b \<Rightarrow>
          (case load_workbook lib b of Inl m \<Rightarrow> Inl (LoadError m) | Inr wb \<Rightarrow> Inr wb))"

section \<open>The analysis engine\<close>

subsection \<open>Reports\<close>

record comment_entry =
  ce_cell :: string
  ce_value :: string
  ce_comment :: string
  ce_author :: pyval

record comment_sheet =
  cs_sheet :: string
  cs_comment_count :: nat
  cs_comments :: "comment_entry list"

record comments_report =
  cr_filename :: json
  cr_total_comments :: nat
  cr_worksheets :: "comment_sheet list"

record question_entry =
  qe_cell :: string
  qe_question :: string
  qe_answer_cell :: "string option"
  qe_answer :: string

record question_sheet =
  qs_sheet :: string
  qs_question_count :: nat
  qs_questions :: "question_entry list"

record questions_report =
  qr_filename :: json
  qr_total_questions :: nat
  qr_worksheets :: "question_sheet list"

record hidden_sheet =
  hs_sheet :: string
  hs_hidden :: bool
  hs_row_count :: nat
  hs_column_count :: nat
  hs_hidden_row_count :: nat
  hs_hidden_column_count :: nat
  hs_hidden_rows :: "nat list"
  hs_hidden_columns :: "string list"

record hidden_report =
  hr_filename :: json
  hr_total_hidden_rows :: nat
  hr_total_hidden_columns :: nat
  hr_worksheets :: "hidden_sheet list"

record summary =
  sm_total_comments :: nat
  sm_total_questions :: nat
  sm_total_hidden_rows :: nat
  sm_total_hidden_columns :: nat
  sm_worksheet_count :: nat

record comprehensive_report =
  ca_filename :: json
  ca_summary :: summary
  ca_comments :: comments_report
  ca_questions :: questions_report
  ca_hidden_content :: hidden_report

subsection \<open>extract_comments\<close>

definition comment_entry_of :: "cell \<Rightarrow> comment \<Rightarrow> comment_entry" where
  "comment_entry_of c cm =
     \<lparr>ce_cell = coordinate c,
      ce_value = (if truthy (cell_value c) then py_str (cell_value c) else []),
      ce_comment = cm_text cm,
      ce_author = (case cm_author cm of None \<Rightarrow> PStr ''Unknown'' | Some a \<Rightarrow> a)\<rparr>"

fun comments_in_row :: "cell list \<Rightarrow> comment_entry list \<Rightarrow> comment_entry list" where
  "comments_in_row [] sheet_comments = sheet_comments"
| "comments_in_row (c # cs) sheet_comments =
     comments_in_row cs
       (case cell_comment c of
          None \<Rightarrow> sheet_comments
        | Some cm \<Rightarrow> sheet_comments @ [comment_entry_of c cm])"

fun comments_in_rows :: "cell list list \<Rightarrow> comment_entry list \<Rightarrow> comment_entry list" where
  "comments_in_rows [] sheet_comments = sheet_comments"
| "comments_in_rows (row # rows) sheet_comments =
     comments_in_rows rows (comments_in_row row sheet_comments)"

fun comments_sheets :: "workbook \<Rightarrow> string list \<Rightarrow> comments_report \<Rightarrow> exn + comments_report" where
  "comments_sheets wb [] results = Inr results"
| "comments_sheets wb (sheet_name # rest) results =
     (case getitem wb sheet_name of
        Inl e \<Rightarrow> Inl e
      | Inr ws \<Rightarrow>
          (let sheet_comments = comments_in_rows (iter_rows ws) [] in
           comments_sheets wb rest
             (if sheet_comments \<noteq> [] then
                results
                  \<lparr>cr_worksheets := cr_worksheets results @
                     [\<lparr>cs_sheet = sheet_name,
                       cs_comment_count = length sheet_comments,
                       cs_comments = sheet_comments\<rparr>],
                   cr_total_comments := cr_total_comments results + length sheet_comments\<rparr>
              else results)))"

definition extract_comments :: "library \<Rightarrow> json \<Rightarrow> bytes option \<Rightarrow> exn + comments_report" where
  "extract_comments lib filename file_buffer =
     (case load_workbook_from_buffer lib file_buffer of
        Inl e \<Rightarrow> Inl e
      | Inr wb \<Rightarrow>
          comments_sheets wb (sheetnames wb)
            \<lparr>cr_filename = filename, cr_total_comments = 0, cr_worksheets = []\<rparr>)"

subsection \<open>extract_questions\<close>

definition question_entry_of :: "worksheet \<Rightarrow> cell \<Rightarrow> question_entry" where
  "question_entry_of ws c =
     (let answer_cell = ws_cell ws (cell_row c) (cell_column c + 1) in
      \<lparr>qe_cell = coordinate c,
       qe_question = py_str (cell_value c),
       qe_answer_cell = (if cell_truthy answer_cell then Some (coordinate answer_cell) else None),
       qe_answer =
         (if cell_truthy answer_cell \<and> truthy (cell_value answer_cell)
          then py_str (cell_value answer_cell) else [])\<rparr>)"

fun questions_in_row ::
  "worksheet \<Rightarrow> cell list \<Rightarrow> question_entry list \<Rightarrow> question_entry list" where
  "questions_in_row ws [] sheet_questions = sheet_questions"
| "questions_in_row ws (c # cs) sheet_questions =
     questions_in_row ws cs
       (if truthy (cell_value c) \<and> CHR ''?'' \<in> set (py_str (cell_value c))
        then sheet_questions @ [question_entry_of ws c]
        else sheet_questions)"

fun questions_in_rows ::
  "worksheet \<Rightarrow> cell list list \<Rightarrow> question_entry list \<Rightarrow> question_entry list" where
  "questions_in_rows ws [] sheet_questions = sheet_questions"
| "questions_in_rows ws (row # rows) sheet_questions =
     questions_in_rows ws rows (questions_in_row ws row sheet_questions)"

fun questions_sheets ::
  "workbook \<Rightarrow> string list \<Rightarrow> questions_report \<Rightarrow> exn + questions_report" where
  "questions_sheets wb [] results = Inr results"
| "questions_sheets wb (sheet_name # rest) results =
     (case getitem wb sheet_name of
        Inl e \<Rightarrow> Inl e
      | Inr ws \<Rightarrow>
          (let sheet_questions = questions_in_rows ws (iter_rows ws) [] in
           questions_sheets wb rest
             (if sheet_questions \<noteq> [] then
                results
                  \<lparr>qr_worksheets := qr_worksheets results @
                     [\<lparr>qs_sheet = sheet_name,
                       qs_question_count = length sheet_questions,
                       qs_questions = sheet_questions\<rparr>],
                   qr_total_questions := qr_total_questions results + length sheet_questions\<rparr>
              else results)))"

definition extract_questions :: "library \<Rightarrow> json \<Rightarrow> bytes option \<Rightarrow> exn + questions_report" where
  "extract_questions lib filename file_buffer =
     (case load_workbook_from_buffer lib file_buffer of
        Inl e \<Rightarrow> Inl e
      | Inr wb \<Rightarrow>
          questions_sheets wb (sheetnames wb)
            \<lparr>qr_filename = filename, qr_total_questions = 0, qr_worksheets = []\<rparr>)"

subsection \<open>detect_hidden_content\<close>

fun hidden_rows_loop :: "worksheet \<Rightarrow> nat list \<Rightarrow> nat list \<Rightarrow> nat list" where
  "hidden_rows_loop ws [] hidden_rows = hidden_rows"
| "hidden_rows_loop ws (row_num # rest) hidden_rows =
     hidden_rows_loop ws rest
       (if row_hidden ws row_num then hidden_rows @ [row_num] else hidden_rows)"

fun hidden_columns_loop :: "worksheet \<Rightarrow> nat list \<Rightarrow> string list \<Rightarrow> string list" where
  "hidden_columns_loop ws [] hidden_columns = hidden_columns"
| "hidden_columns_loop ws (col_num # rest) hidden_columns =
     (let col_letter = get_column_letter col_num in
      hidden_columns_loop ws rest
        (if column_hidden ws col_letter then hidden_columns @ [col_letter]
         else hidden_columns))"

definition sheet_data :: "string \<Rightarrow> worksheet \<Rightarrow> hidden_sheet" where
  "sheet_data sheet_name ws =
     (let hidden_rows = hidden_rows_loop ws [1..<max_row ws + 1] [];
          hidden_columns = hidden_columns_loop ws [1..<max_column ws + 1] []
      in \<lparr>hs_sheet = sheet_name,
          hs_hidden = (sheet_state ws = ''hidden''),
          hs_row_count = max_row ws,
          hs_column_count = max_column ws,
          hs_hidden_row_count = length hidden_rows,
          hs_hidden_column_count = length hidden_columns,
          hs_hidden_rows = take 50 hidden_rows,
          hs_hidden_columns = take 50 hidden_columns\<rparr>)"

fun hidden_sheets :: "workbook \<Rightarrow> string list \<Rightarrow> hidden_report \<Rightarrow> exn + hidden_report" where
  "hidden_sheets wb [] results = Inr results"
| "hidden_sheets wb (sheet_name # rest) results =
     (case getitem wb sheet_name of
        Inl e \<Rightarrow> Inl e
      | Inr ws \<Rightarrow>
          (let sd = sheet_data sheet_name ws in
           hidden_sheets wb rest
             (results
                \<lparr>hr_worksheets := hr_worksheets results @ [sd],
                 hr_total_hidden_rows := hr_total_hidden_rows results + hs_hidden_row_count sd,
                 hr_total_hidden_columns :=
                   hr_total_hidden_columns results + hs_hidden_column_count sd\<rparr>)))"

definition detect_hidden_content :: "library \<Rightarrow> json \<Rightarrow> bytes option \<Rightarrow> exn + hidden_report" where
  "detect_hidden_content lib filename file_buffer =
     (case load_workbook_from_buffer lib file_buffer of
        Inl e \<Rightarrow> Inl e
      | Inr wb \<Rightarrow>
          hidden_sheets wb (sheetnames wb)
            \<lparr>hr_filename = filename, hr_total_hidden_rows = 0, hr_total_hidden_columns = 0,
             hr_worksheets = []\<rparr>)"

subsection \<open>comprehensive_analysis\<close>

definition comprehensive_analysis ::
  "library \<Rightarrow> json \<Rightarrow> bytes option \<Rightarrow> exn + comprehensive_report" where
  "comprehensive_analysis lib filename file_buffer =
     (case extract_comments lib filename file_buffer of
        Inl e \<Rightarrow> Inl e
      | Inr comments \<Rightarrow>
          (case extract_questions lib filename file_buffer of
             Inl e \<Rightarrow> Inl e
           | Inr questions \<Rightarrow>
               (case detect_hidden_content lib filename file_buffer of
                  Inl e \<Rightarrow> Inl e
                | Inr hidden \<Rightarrow>
                    Inr \<lparr>ca_filename = filename,
                         ca_summary =
                           \<lparr>sm_total_comments = cr_total_comments comments,
                            sm_total_questions = qr_total_questions questions,
                            sm_total_hidden_rows = hr_total_hidden_rows hidden,
                            sm_total_hidden_columns = hr_total_hidden_columns hidden,
                            sm_worksheet_count = length (hr_worksheets hidden)\<rparr>,
                         ca_comments = comments,
                         ca_questions = questions,
                         ca_hidden_content = hidden\<rparr>)))"

section \<open>The RPC dispatch layer\<close>

datatype tool_result =
    CommentsResult comments_report
  | QuestionsResult questions_report
  | HiddenResult hidden_report
  | ComprehensiveResult comprehensive_report

text \<open>
  A response is a success with its result (protocol data, or the report of a tool as
  \<open>content\<close>) or an error with code, message and data; both carry an id.
\<close>

datatype payload = Protocol json | Content tool_result

datatype response =
    Success json payload
  | Failure json int string string

fun response_id :: "response \<Rightarrow> json" where
  "response_id (Success i p) = i"
| "response_id (Failure i c m d) = i"

definition filename_schema :: json where
  "filename_schema =
     JObj [(''type'', JStr ''object''),
           (''properties'',
              JObj [(''filename'',
                       JObj [(''type'', JStr ''string''),
                             (''description'', JStr ''Workbook filename (.xlsx file)'')])]),
           (''required'', JList [JStr ''filename''])]"

definition TOOLS :: "json list" where
  "TOOLS =
     [JObj [(''name'', JStr ''extract_comments''),
            (''description'', JStr (''Extract all Excel comments from a workbook. '' @
               ''Returns comments with cell location, content, and author.'')),
            (''inputSchema'', filename_schema)],
      JObj [(''name'', JStr ''extract_questions''),
            (''description'', JStr (''Find all cells containing questions (cells with '' @
               quote ''?'' @ ''). Automatically detects answers in adjacent cells.'')),
            (''inputSchema'', filename_schema)],
      JObj [(''name'', JStr ''detect_hidden_content''),
            (''description'', JStr (''List all hidden rows, columns, and worksheets. '' @
               ''Shows which content is hidden in the workbook.'')),
            (''inputSchema'', filename_schema)],
      JObj [(''name'', JStr ''comprehensive_analysis''),
            (''description'', JStr (''Full workbook analysis - extracts comments, questions, '' @
               ''hidden content, and provides summary statistics.'')),
            (''inputSchema'', filename_schema)]]"

text \<open>\<^verbatim>\<open>x.get(key, default)\<close>: defined on a dictionary, an \<^verbatim>\<open>AttributeError\<close> elsewhere.\<close>

definition dict_get :: "(string \<times> json) list \<Rightarrow> string \<Rightarrow> json \<Rightarrow> json" where
  "dict_get d k dflt = (case map_of d k of None \<Rightarrow> dflt | Some v \<Rightarrow> v)"

definition no_attribute :: "json \<Rightarrow> string \<Rightarrow> exn" where
  "no_attribute v a =
     AttributeError (quote (type_name v) @ '' object has no attribute '' @ quote a)"

fun py_get :: "json \<Rightarrow> string \<Rightarrow> json \<Rightarrow> exn + json" where
  "py_get (JObj d) k dflt = Inr (dict_get d k dflt)"
| "py_get v k dflt = Inl (no_attribute v ''get'')"

definition call_tool :: "library \<Rightarrow> json \<Rightarrow> json \<Rightarrow> bytes option \<Rightarrow> exn + tool_result" where
  "call_tool lib tool_name filename file_buffer =
     (if tool_name = JStr ''extract_comments'' then
        map_sum id CommentsResult (extract_comments lib filename file_buffer)
      else if tool_name = JStr ''extract_questions'' then
        map_sum id QuestionsResult (extract_questions lib filename file_buffer)
      else if tool_name = JStr ''detect_hidden_content'' then
        map_sum id HiddenResult (detect_hidden_content lib filename file_buffer)
      else if tool_name = JStr ''comprehensive_analysis'' then
        map_sum id ComprehensiveResult (comprehensive_analysis lib filename file_buffer)
      else Inl (UnknownTool tool_name))"

text \<open>The file buffer of a request: \<^verbatim>\<open>None\<close> unless the request has a \<^verbatim>\<open>fileContent\<close>.\<close>

definition request_buffer :: "library \<Rightarrow> (string \<times> json) list \<Rightarrow> exn + bytes option" where
  "request_buffer lib request =
     (case map_of request ''fileContent'' of
        None \<Rightarrow> Inr None
      | Some content \<Rightarrow>
          (case b64decode lib content of Inl m \<Rightarrow> Inl (DecodeError m) | Inr b \<Rightarrow> Inr (Some b)))"

definition tools_call :: "library \<Rightarrow> (string \<times> json) list \<Rightarrow> json \<Rightarrow> exn + payload" where
  "tools_call lib request params =
     (case py_get params ''name'' JNull of
        Inl e \<Rightarrow> Inl e
      | Inr tool_name \<Rightarrow>
     (case py_get params ''arguments'' (JObj []) of
        Inl e \<Rightarrow> Inl e
      | Inr arguments \<Rightarrow>
     (case py_get arguments ''filename'' JNull of
        Inl e \<Rightarrow> Inl e
      | Inr filename \<Rightarrow>
     (case request_buffer lib request of
        Inl e \<Rightarrow> Inl e
      | Inr file_buffer \<Rightarrow>
     (case call_tool lib tool_name filename file_buffer of
        Inl e \<Rightarrow> Inl e
      | Inr result \<Rightarrow> Inr (Content result))))))"

text \<open>The body of the \<^verbatim>\<open>try\<close> of \<^verbatim>\<open>handle_request\<close>, on a request that is a dictionary.\<close>

definition dispatch ::
  "library \<Rightarrow> (string \<times> json) list \<Rightarrow> json \<Rightarrow> json \<Rightarrow> exn + payload" where
  "dispatch lib request method params =
     (if method = JStr ''initialize'' then
        Inr (Protocol
          (JObj [(''protocolVersion'', JStr ''2024-11-05''),
                 (''capabilities'', JObj [(''tools'', JObj [])]),
                 (''serverInfo'',
                    JObj [(''name'', JStr ''excel-python-mcp''),
                          (''version'', JStr ''1.0.0'')])]))
      else if method = JStr ''tools/list'' then
        Inr (Protocol (JObj [(''tools'', JList TOOLS)]))
      else if method = JStr ''tools/call'' then tools_call lib request params
      else Inl (UnknownMethod method))"

text \<open>
  \<^verbatim>\<open>handle_request\<close>: the three \<^verbatim>\<open>request.get\<close> calls stand before the \<^verbatim>\<open>try\<close>, so
  on a request that is no dictionary the \<^verbatim>\<open>AttributeError\<close> of the first one leaves
  the function; every exception of the body becomes an error response.
\<close>

fun handle_request :: "library \<Rightarrow> json \<Rightarrow> exn + response" where
  "handle_request lib (JObj request) =
     (let method = dict_get request ''method'' JNull;
          params = dict_get request ''params'' (JObj []);
          req_id = dict_get request ''id'' (JInt 0)
      in Inr (case dispatch lib request method params of
                Inr result \<Rightarrow> Success req_id result
              | Inl e \<Rightarrow> Failure req_id (- 32603) ''Internal error'' (str_exn lib e)))"
| "handle_request lib request = Inl (no_attribute request ''get'')"

subsection \<open>The main loop\<close>

text \<open>
  The characters \<^verbatim>\<open>str.strip\<close> removes, among the code points below 256.
\<close>

definition is_space :: "char \<Rightarrow> bool" where
  "is_space c = (of_char c \<in> set [9, 10, 11, 12, 13, 28, 29, 30, 31, 32, 133, 160 :: nat])"

definition strip :: "string \<Rightarrow> string" where
  "strip s = rev (dropWhile is_space (rev (dropWhile is_space s)))"

datatype event = Stderr string | Read string | Stdout response

definition parse_error :: "string \<Rightarrow> response" where
  "parse_error m = Failure (JInt 0) (- 32700) ''Parse error'' m"

text \<open>The body of the loop on a line that is not blank: one response, printed.\<close>

definition respond :: "library \<Rightarrow> string \<Rightarrow> response" where
  "respond lib line =
     (case json_loads lib line of
        Inl m \<Rightarrow> parse_error m
      | Inr request \<Rightarrow>
          (case handle_request lib request of
             Inl e \<Rightarrow> parse_error (str_exn lib e)
           | Inr response \<Rightarrow> response))"

fun main_loop :: "library \<Rightarrow> string list \<Rightarrow> event list" where
  "main_loop lib [] = []"
| "main_loop lib (line # rest) =
     Read line #
       (if strip line = [] then main_loop lib rest
        else Stdout (respond lib line) # main_loop lib rest)"

definition main :: "library \<Rightarrow> string list \<Rightarrow> event list" where
  "main lib stdin = Stderr ''Python Excel Analysis MCP Server starting...'' # main_loop lib stdin"

section \<open>Notions used to state the properties\<close>

text \<open>
  The worksheets the loop over \<^verbatim>\<open>wb.sheetnames\<close> visits, in order: for each name the
  worksheet \<^verbatim>\<open>wb[sheet_name]\<close> resolves to.
\<close>

definition visit :: "workbook \<Rightarrow> string list \<Rightarrow> worksheet list" where
  "visit wb names = List.map_filter (\<lambda>n. find (\<lambda>ws. title ws = n) wb) names"

definition visited :: "workbook \<Rightarrow> worksheet list" where
  "visited wb = visit wb (sheetnames wb)"

text \<open>The cells of a worksheet in the order of the traversal (row-major).\<close>

definition cells_of :: "worksheet \<Rightarrow> cell list" where
  "cells_of ws = concat (iter_rows ws)"

text \<open>The cells whose stringified value contains a question mark.\<close>

definition question_cells :: "worksheet \<Rightarrow> cell list" where
  "question_cells ws = filter (\<lambda>c. CHR ''?'' \<in> set (py_str (cell_value c))) (cells_of ws)"

definition right_of :: "worksheet \<Rightarrow> cell \<Rightarrow> cell" where
  "right_of ws c = ws_cell ws (cell_row c) (cell_column c + 1)"

definition question_sheet_of :: "string \<Rightarrow> worksheet \<Rightarrow> question_sheet list" where
  "question_sheet_of n ws =
     (if question_cells ws = [] then []
      else [\<lparr>qs_sheet = n,
             qs_question_count = length (question_cells ws),
             qs_questions = map (question_entry_of ws) (question_cells ws)\<rparr>])"

text \<open>The cells that carry a comment, and the entry of a worksheet in the comments report.\<close>

definition commented_cells :: "worksheet \<Rightarrow> cell list" where
  "commented_cells ws = filter (\<lambda>c. cell_comment c \<noteq> None) (cells_of ws)"

definition comment_of :: "cell \<Rightarrow> comment_entry" where
  "comment_of c =
     (case cell_comment c of
        Some cm \<Rightarrow> comment_entry_of c cm
      | None \<Rightarrow> \<lparr>ce_cell = [], ce_value = [], ce_comment = [], ce_author = PNone\<rparr>)"

definition comment_sheet_of :: "string \<Rightarrow> worksheet \<Rightarrow> comment_sheet list" where
  "comment_sheet_of n ws =
     (if commented_cells ws = [] then []
      else [\<lparr>cs_sheet = n,
             cs_comment_count = length (commented_cells ws),
             cs_comments = map comment_of (commented_cells ws)\<rparr>])"

text \<open>The hidden rows and columns of a worksheet, within its bounding box.\<close>

definition true_hidden_rows :: "worksheet \<Rightarrow> nat list" where
  "true_hidden_rows ws = filter (row_hidden ws) [1..<Suc (max_row ws)]"

definition true_hidden_columns :: "worksheet \<Rightarrow> nat list" where
  "true_hidden_columns ws =
     filter (\<lambda>c. column_hidden ws (get_column_letter c)) [1..<Suc (max_column ws)]"

text \<open>A report under another file name.\<close>

fun relabel :: "json \<Rightarrow> tool_result \<Rightarrow> tool_result" where
  "relabel f (CommentsResult r) = CommentsResult (r\<lparr>cr_filename := f\<rparr>)"
| "relabel f (QuestionsResult r) = QuestionsResult (r\<lparr>qr_filename := f\<rparr>)"
| "relabel f (HiddenResult r) = HiddenResult (r\<lparr>hr_filename := f\<rparr>)"
| "relabel f (ComprehensiveResult r) =
     ComprehensiveResult
       (r\<lparr>ca_filename := f,
          ca_comments := (ca_comments r)\<lparr>cr_filename := f\<rparr>,
          ca_questions := (ca_questions r)\<lparr>qr_filename := f\<rparr>,
          ca_hidden_content := (ca_hidden_content r)\<lparr>hr_filename := f\<rparr>\<rparr>)"

definition tool_names :: "json list" where
  "tool_names = map (\<lambda>t. case t of JObj d \<Rightarrow> dict_get d ''name'' JNull | _ \<Rightarrow> JNull) TOOLS"

fun is_stdout :: "event \<Rightarrow> bool" where
  "is_stdout (Stdout r) = True"
| "is_stdout e = False"

section \<open>Example workbooks and an instance of the library\<close>

text \<open>Sheet1 with A1 = "Is this done?" and B1 = "Yes".\<close>

definition sheet1 :: worksheet where
  "sheet1 =
     \<lparr>title = ''Sheet1'', sheet_state = ''visible'', max_row = 1, max_column = 2,
      stored = [(1, 1) \<mapsto> (PStr ''Is this done?'', None), (1, 2) \<mapsto> (PStr ''Yes'', None)],
      row_hidden = (\<lambda>n. False), column_hidden = (\<lambda>l. False)\<rparr>"

text \<open>
  A sheet whose A1 holds the number 0 and a comment by Ana, and whose B2 holds a comment
  with no author attribute; row 2 and column B are hidden.
\<close>

definition notes_sheet :: worksheet where
  "notes_sheet =
     \<lparr>title = ''Notes'', sheet_state = ''hidden'', max_row = 2, max_column = 2,
      stored = [(1, 1) \<mapsto> (PInt 0, Some \<lparr>cm_text = ''check'', cm_author = Some (PStr ''Ana'')\<rparr>),
                (2, 2) \<mapsto> (PStr ''why?'', Some \<lparr>cm_text = ''later'', cm_author = None\<rparr>)],
      row_hidden = (\<lambda>n. n = 2), column_hidden = (\<lambda>l. l = ''B'')\<rparr>"

text \<open>A very hidden sheet of 51 rows, all of them hidden, with nothing stored.\<close>

definition archive :: worksheet where
  "archive =
     \<lparr>title = ''Archive'', sheet_state = ''veryHidden'', max_row = 51, max_column = 1,
      stored = Map.empty,
      row_hidden = (\<lambda>n. True), column_hidden = (\<lambda>l. False)\<rparr>"

definition book :: workbook where
  "book = [sheet1, notes_sheet, archive]"

text \<open>A sheet that asks "How many?" in A1 and holds the number 0 as the answer in B1.\<close>

definition tally :: worksheet where
  "tally =
     \<lparr>title = ''Tally'', sheet_state = ''visible'', max_row = 1, max_column = 2,
      stored = [(1, 1) \<mapsto> (PStr ''How many?'', None), (1, 2) \<mapsto> (PInt 0, None)],
      row_hidden = (\<lambda>n. False), column_hidden = (\<lambda>l. False)\<rparr>"

text \<open>
  An instance of the library on which the theorems are instantiated: it knows four
  request lines, the base64 text of three buffers and the workbooks of two of them, and
  rejects everything else.
\<close>

definition dquote :: "string \<Rightarrow> string" where
  "dquote s = CHR 0x22 # s @ [CHR 0x22]"

definition list_line :: string where
  "list_line =
     ''{'' @ dquote ''id'' @ '': 7, '' @ dquote ''method'' @ '': '' @ dquote ''tools/list'' @ ''}''"

definition list_request :: json where
  "list_request = JObj [(''id'', JInt 7), (''method'', JStr ''tools/list'')]"

definition call_line :: string where
  "call_line =
     ''{'' @ dquote ''id'' @ '': 9, '' @ dquote ''method'' @ '': '' @ dquote ''tools/call'' @ '', '' @
     dquote ''params'' @ '': {'' @ dquote ''name'' @ '': '' @ dquote ''extract_comments'' @ ''}, '' @
     dquote ''fileContent'' @ '': '' @ dquote ''bm90IGEgemlw'' @ ''}''"

definition call_request :: json where
  "call_request =
     JObj [(''id'', JInt 9), (''method'', JStr ''tools/call''),
           (''params'', JObj [(''name'', JStr ''extract_comments'')]),
           (''fileContent'', JStr ''bm90IGEgemlw'')]"

definition example_library :: library where
  "example_library =
     \<lparr>json_loads =
        (\<lambda>line.
           if line = ''[]'' then Inr (JList [])
           else if line = ''{}'' then Inr (JObj [])
           else if line = list_line then Inr list_request
           else if line = call_line then Inr call_request
           else Inl ''Expecting value: line 1 column 1 (char 0)''),
      b64decode =
        (\<lambda>v. if v = JStr ''c2NlbmFyaW8='' then Inr ''scenario''
             else if v = JStr ''Ym9vaw=='' then Inr ''book''
             else if v = JStr ''bm90IGEgemlw'' then Inr ''not a zip''
             else Inl ''Incorrect padding''),
      load_workbook =
        (\<lambda>b. if b = ''scenario'' then Inr [sheet1]
             else if b = ''book'' then Inr book
             else Inl ''File is not a zip file''),
      container_repr = (\<lambda>v. ''[...]'')\<rparr>"

text \<open>The same library, with a loader that knows the buffer of the workbook of Tally.\<close>

definition tally_library :: library where
  "tally_library =
     example_library
       \<lparr>load_workbook :=
          (\<lambda>b. if b = ''tally'' then Inr [tally] else Inl ''File is not a zip file'')\<rparr>"

section \<open>The loops in closed form\<close>

lemma digit_char_not_question: "d < 10 \<Longrightarrow> digit_char d \<noteq> CHR ''?''"
proof
  assume d: "d < 10" and eq: "digit_char d = CHR ''?''"
  have "of_char (digit_char d) = (of_char (CHR ''?'') :: nat)" using eq by simp
  then show False using d by (simp add: digit_char_def)
qed

lemma str_nat_no_question: "CHR ''?'' \<notin> set (str_nat n)"
proof (induction n rule: str_nat.induct)
  case (1 n)
  show ?case
  proof (cases "n < 10")
    case True
    then show ?thesis using digit_char_not_question [of n] by (simp add: str_nat.simps)
  next
    case False
    then have "CHR ''?'' \<notin> set (str_nat (n div 10))" using 1 by simp
    moreover have "digit_char (n mod 10) \<noteq> CHR ''?''" by (rule digit_char_not_question) simp
    ultimately show ?thesis using False by (subst str_nat.simps) auto
  qed
qed

lemma question_mark_truthy: "CHR ''?'' \<in> set (py_str v) \<Longrightarrow> truthy v"
  by (cases v) (auto simp: str_int_def str_nat_no_question split: if_splits)

lemma comments_in_row_eq:
  "comments_in_row cs acc = acc @ map comment_of (filter (\<lambda>c. cell_comment c \<noteq> None) cs)"
  by (induction cs arbitrary: acc) (auto simp: comment_of_def split: option.splits)

lemma comments_in_rows_eq:
  "comments_in_rows rows acc =
     acc @ map comment_of (filter (\<lambda>c. cell_comment c \<noteq> None) (concat rows))"
  by (induction rows arbitrary: acc) (auto simp: comments_in_row_eq)

lemma questions_in_row_eq:
  "questions_in_row ws cs acc =
     acc @ map (question_entry_of ws) (filter (\<lambda>c. CHR ''?'' \<in> set (py_str (cell_value c))) cs)"
  by (induction cs arbitrary: acc) (auto simp: question_mark_truthy)

lemma questions_in_rows_eq:
  "questions_in_rows ws rows acc =
     acc @ map (question_entry_of ws)
       (filter (\<lambda>c. CHR ''?'' \<in> set (py_str (cell_value c))) (concat rows))"
  by (induction rows arbitrary: acc) (auto simp: questions_in_row_eq)

lemma hidden_rows_loop_eq: "hidden_rows_loop ws ns acc = acc @ filter (row_hidden ws) ns"
  by (induction ns arbitrary: acc) auto

lemma hidden_columns_loop_eq:
  "hidden_columns_loop ws ns acc =
     acc @ map get_column_letter (filter (\<lambda>c. column_hidden ws (get_column_letter c)) ns)"
  by (induction ns arbitrary: acc) auto

lemma sheet_data_eq:
  "sheet_data n ws =
     \<lparr>hs_sheet = n,
      hs_hidden = (sheet_state ws = ''hidden''),
      hs_row_count = max_row ws,
      hs_column_count = max_column ws,
      hs_hidden_row_count = length (true_hidden_rows ws),
      hs_hidden_column_count = length (true_hidden_columns ws),
      hs_hidden_rows = take 50 (true_hidden_rows ws),
      hs_hidden_columns = map get_column_letter (take 50 (true_hidden_columns ws))\<rparr>"
  by (simp add: sheet_data_def hidden_rows_loop_eq hidden_columns_loop_eq true_hidden_rows_def
      true_hidden_columns_def take_map)

lemma find_title:
  "n \<in> set (sheetnames wb) \<Longrightarrow> \<exists>ws. find (\<lambda>ws. title ws = n) wb = Some ws"
  by (cases "find (\<lambda>ws. title ws = n) wb") (auto simp: find_None_iff sheetnames_def)

lemma visit_Cons:
  "find (\<lambda>ws. title ws = n) wb = Some ws \<Longrightarrow> visit wb (n # ns) = ws # visit wb ns"
  by (simp add: visit_def map_filter_simps)

lemma getitem_Some: "find (\<lambda>ws. title ws = n) wb = Some ws \<Longrightarrow> getitem wb n = Inr ws"
  by (simp add: getitem_def)

lemma getitem_visit:
  "set names \<subseteq> set (sheetnames wb) \<Longrightarrow> map (getitem wb) names = map Inr (visit wb names)"
proof (induction names)
  case Nil
  show ?case by (simp add: visit_def map_filter_simps)
next
  case (Cons n ns)
  then obtain ws where f: "find (\<lambda>ws. title ws = n) wb = Some ws"
    using find_title [of n wb] by auto
  show ?case using Cons f by (simp add: visit_Cons getitem_Some)
qed

lemma length_visit:
  "set names \<subseteq> set (sheetnames wb) \<Longrightarrow> length (visit wb names) = length names"
  using getitem_visit [of names wb] by (metis length_map)

lemma visit_title:
  assumes "set names \<subseteq> set (sheetnames wb)" and "i < length names"
  shows "title (visit wb names ! i) = names ! i \<and> visit wb names ! i \<in> set wb"
proof -
  have "getitem wb (names ! i) = Inr (visit wb names ! i)"
    using getitem_visit [OF assms(1)] assms(2) length_visit [OF assms(1)]
    by (metis nth_map)
  then show ?thesis
    by (auto simp: getitem_def find_Some_iff split: option.splits)
qed

lemma find_distinct:
  "distinct (map title wb) \<Longrightarrow> ws \<in> set wb \<Longrightarrow> find (\<lambda>w. title w = title ws) wb = Some ws"
  by (induction wb) (auto simp: rev_image_eqI)

lemma visit_distinct_aux:
  "distinct (map title wb) \<Longrightarrow> set xs \<subseteq> set wb \<Longrightarrow> visit wb (map title xs) = xs"
  by (induction xs) (auto simp: visit_def map_filter_simps find_distinct)

lemma visited_distinct: "distinct (sheetnames wb) \<Longrightarrow> visited wb = wb"
  by (simp add: visited_def sheetnames_def visit_distinct_aux)


lemma sheet_comments_eq:
  "comments_in_rows (iter_rows ws) [] = map comment_of (commented_cells ws)"
  by (simp add: comments_in_rows_eq commented_cells_def cells_of_def)

lemma sheet_questions_eq:
  "questions_in_rows ws (iter_rows ws) [] = map (question_entry_of ws) (question_cells ws)"
  by (simp add: questions_in_rows_eq question_cells_def cells_of_def)

lemma comments_sheets_eq:
  "set names \<subseteq> set (sheetnames wb) \<Longrightarrow>
   comments_sheets wb names res =
     Inr (res\<lparr>cr_worksheets :=
                cr_worksheets res @ concat (map2 comment_sheet_of names (visit wb names)),
              cr_total_comments :=
                cr_total_comments res +
                sum_list (map (\<lambda>ws. length (commented_cells ws)) (visit wb names))\<rparr>)"
proof (induction names arbitrary: res)
  case Nil
  show ?case by (simp add: visit_def map_filter_simps)
next
  case (Cons n ns)
  then obtain ws where f: "find (\<lambda>ws. title ws = n) wb = Some ws"
    using find_title [of n wb] by auto
  have ns: "set ns \<subseteq> set (sheetnames wb)" using Cons.prems by simp
  show ?case
    by (simp add: getitem_Some [OF f] visit_Cons [OF f] Cons.IH [OF ns] sheet_comments_eq
        comment_sheet_of_def Let_def)
qed

lemma questions_sheets_eq:
  "set names \<subseteq> set (sheetnames wb) \<Longrightarrow>
   questions_sheets wb names res =
     Inr (res\<lparr>qr_worksheets :=
                qr_worksheets res @ concat (map2 question_sheet_of names (visit wb names)),
              qr_total_questions :=
                qr_total_questions res +
                sum_list (map (\<lambda>ws. length (question_cells ws)) (visit wb names))\<rparr>)"
proof (induction names arbitrary: res)
  case Nil
  show ?case by (simp add: visit_def map_filter_simps)
next
  case (Cons n ns)
  then obtain ws where f: "find (\<lambda>ws. title ws = n) wb = Some ws"
    using find_title [of n wb] by auto
  have ns: "set ns \<subseteq> set (sheetnames wb)" using Cons.prems by simp
  show ?case
    by (simp add: getitem_Some [OF f] visit_Cons [OF f] Cons.IH [OF ns] sheet_questions_eq
        question_sheet_of_def Let_def)
qed

lemma hidden_sheets_eq:
  "set names \<subseteq> set (sheetnames wb) \<Longrightarrow>
   hidden_sheets wb names res =
     Inr (res\<lparr>hr_worksheets := hr_worksheets res @ map2 sheet_data names (visit wb names),
              hr_total_hidden_rows :=
                hr_total_hidden_rows res +
                sum_list (map (\<lambda>ws. length (true_hidden_rows ws)) (visit wb names)),
              hr_total_hidden_columns :=
                hr_total_hidden_columns res +
                sum_list (map (\<lambda>ws. length (true_hidden_columns ws)) (visit wb names))\<rparr>)"
proof (induction names arbitrary: res)
  case Nil
  show ?case by (simp add: visit_def map_filter_simps)
next
  case (Cons n ns)
  then obtain ws where f: "find (\<lambda>ws. title ws = n) wb = Some ws"
    using find_title [of n wb] by auto
  have ns: "set ns \<subseteq> set (sheetnames wb)" using Cons.prems by simp
  show ?case
    by (simp add: getitem_Some [OF f] visit_Cons [OF f] Cons.IH [OF ns] Let_def sheet_data_eq)
qed

lemma extract_comments_eq:
  "extract_comments lib f buf =
     (case load_workbook_from_buffer lib buf of
        Inl e \<Rightarrow> Inl e
      | Inr wb \<Rightarrow>
          Inr \<lparr>cr_filename = f,
               cr_total_comments = sum_list (map (\<lambda>ws. length (commented_cells ws)) (visited wb)),
               cr_worksheets = concat (map2 comment_sheet_of (sheetnames wb) (visited wb))\<rparr>)"
  by (simp add: extract_comments_def comments_sheets_eq visited_def split: sum.splits)

lemma extract_questions_eq:
  "extract_questions lib f buf =
     (case load_workbook_from_buffer lib buf of
        Inl e \<Rightarrow> Inl e
      | Inr wb \<Rightarrow>
          Inr \<lparr>qr_filename = f,
               qr_total_questions = sum_list (map (\<lambda>ws. length (question_cells ws)) (visited wb)),
               qr_worksheets = concat (map2 question_sheet_of (sheetnames wb) (visited wb))\<rparr>)"
  by (simp add: extract_questions_def questions_sheets_eq visited_def split: sum.splits)

lemma detect_hidden_content_eq:
  "detect_hidden_content lib f buf =
     (case load_workbook_from_buffer lib buf of
        Inl e \<Rightarrow> Inl e
      | Inr wb \<Rightarrow>
          Inr \<lparr>hr_filename = f,
               hr_total_hidden_rows =
                 sum_list (map (\<lambda>ws. length (true_hidden_rows ws)) (visited wb)),
               hr_total_hidden_columns =
                 sum_list (map (\<lambda>ws. length (true_hidden_columns ws)) (visited wb)),
               hr_worksheets = map2 sheet_data (sheetnames wb) (visited wb)\<rparr>)"
  by (simp add: detect_hidden_content_def hidden_sheets_eq visited_def split: sum.splits)

lemma length_visited: "length (visited wb) = length wb"
  by (simp add: visited_def length_visit sheetnames_def)

lemma getitem_visited: "map (getitem wb) (sheetnames wb) = map Inr (visited wb)"
  by (simp add: visited_def getitem_visit)

section \<open>The example workbooks, loaded\<close>

lemma load_book: "load_workbook_from_buffer example_library (Some ''book'') = Inr book"
  by (simp add: load_workbook_from_buffer_def example_library_def)

lemma load_scenario: "load_workbook_from_buffer example_library (Some ''scenario'') = Inr [sheet1]"
  by (simp add: load_workbook_from_buffer_def example_library_def)

section \<open>The comprehensive report is a composition\<close>

text \<open>
  Claim C1.  When the buffer loads, \<open>comprehensive_analysis\<close> returns a report, the three
  passes run directly on the same file name and buffer return theirs, and the summary of
  the former holds the totals of the latter: the total of comments, of questions, of
  hidden rows and of hidden columns, and as worksheet count the number of worksheet
  entries of the hidden-content report (one per worksheet).  The three reports it embeds
  are the reports of the direct runs, so it scans nothing on its own.  When the buffer
  does not load, all four fail with the same exception.
\<close>

theorem comprehensive_analysis_composition:
  "case load_workbook_from_buffer lib file_buffer of
     Inl e \<Rightarrow>
       comprehensive_analysis lib filename file_buffer = Inl e \<and>
       extract_comments lib filename file_buffer = Inl e \<and>
       extract_questions lib filename file_buffer = Inl e \<and>
       detect_hidden_content lib filename file_buffer = Inl e
   | Inr wb \<Rightarrow>
       (\<exists>r c q h.
          comprehensive_analysis lib filename file_buffer = Inr r \<and>
          extract_comments lib filename file_buffer = Inr c \<and>
          extract_questions lib filename file_buffer = Inr q \<and>
          detect_hidden_content lib filename file_buffer = Inr h \<and>
          sm_total_comments (ca_summary r) = cr_total_comments c \<and>
          sm_total_questions (ca_summary r) = qr_total_questions q \<and>
          sm_total_hidden_rows (ca_summary r) = hr_total_hidden_rows h \<and>
          sm_total_hidden_columns (ca_summary r) = hr_total_hidden_columns h \<and>
          sm_worksheet_count (ca_summary r) = length (hr_worksheets h) \<and>
          length (hr_worksheets h) = length wb \<and>
          ca_comments r = c \<and> ca_questions r = q \<and> ca_hidden_content r = h)"
proof (cases "load_workbook_from_buffer lib file_buffer")
  case (Inl e)
  then show ?thesis
    by (simp add: comprehensive_analysis_def extract_comments_eq extract_questions_eq
        detect_hidden_content_eq)
next
  case (Inr wb)
  have "length (map2 sheet_data (sheetnames wb) (visited wb)) = length wb"
    by (simp add: length_visited sheetnames_def)
  with Inr show ?thesis
    by (simp add: comprehensive_analysis_def extract_comments_eq extract_questions_eq
        detect_hidden_content_eq)
qed

theorem comprehensive_analysis_composition_witness:
  "\<exists>r c q h.
     comprehensive_analysis example_library (JStr ''book.xlsx'') (Some ''book'') = Inr r \<and>
     extract_comments example_library (JStr ''book.xlsx'') (Some ''book'') = Inr c \<and>
     extract_questions example_library (JStr ''book.xlsx'') (Some ''book'') = Inr q \<and>
     detect_hidden_content example_library (JStr ''book.xlsx'') (Some ''book'') = Inr h \<and>
     sm_total_comments (ca_summary r) = cr_total_comments c \<and>
     sm_total_questions (ca_summary r) = qr_total_questions q \<and>
     sm_total_hidden_rows (ca_summary r) = hr_total_hidden_rows h \<and>
     sm_total_hidden_columns (ca_summary r) = hr_total_hidden_columns h \<and>
     sm_worksheet_count (ca_summary r) = length (hr_worksheets h) \<and>
     length (hr_worksheets h) = 3"
  using comprehensive_analysis_composition
    [where lib = example_library and file_buffer = "Some ''book''"
      and filename = "JStr ''book.xlsx''"]
  by (simp add: load_book) (auto simp: book_def)

section \<open>The hidden-content report\<close>

lemma length_true_hidden_rows:
  "length (true_hidden_rows ws) = card {n. 1 \<le> n \<and> n \<le> max_row ws \<and> row_hidden ws n}"
proof -
  have "length (true_hidden_rows ws) = card ({n. row_hidden ws n} \<inter> set [1..<Suc (max_row ws)])"
    unfolding true_hidden_rows_def by (rule distinct_length_filter) simp
  also have "{n. row_hidden ws n} \<inter> set [1..<Suc (max_row ws)] =
      {n. 1 \<le> n \<and> n \<le> max_row ws \<and> row_hidden ws n}"
    by auto
  finally show ?thesis .
qed

lemma length_true_hidden_columns:
  "length (true_hidden_columns ws) =
     card {c. 1 \<le> c \<and> c \<le> max_column ws \<and> column_hidden ws (get_column_letter c)}"
proof -
  have "length (true_hidden_columns ws) =
      card ({c. column_hidden ws (get_column_letter c)} \<inter> set [1..<Suc (max_column ws)])"
    unfolding true_hidden_columns_def by (rule distinct_length_filter) simp
  also have "{c. column_hidden ws (get_column_letter c)} \<inter> set [1..<Suc (max_column ws)] =
      {c. 1 \<le> c \<and> c \<le> max_column ws \<and> column_hidden ws (get_column_letter c)}"
    by auto
  finally show ?thesis .
qed

lemma visited_nth:
  assumes "i < length wb"
  shows "getitem wb (sheetnames wb ! i) = Inr (visited wb ! i)"
proof -
  have "map (getitem wb) (sheetnames wb) ! i = map Inr (visited wb) ! i"
    by (simp only: getitem_visited)
  then show ?thesis using assms by (simp add: length_visited sheetnames_def)
qed

lemma hidden_entry_nth:
  "i < length wb \<Longrightarrow>
   map2 sheet_data (sheetnames wb) (visited wb) ! i = sheet_data (sheetnames wb ! i) (visited wb ! i)"
  by (simp add: length_visited sheetnames_def)

lemma sum_hidden_row_counts:
  "length names = length wss \<Longrightarrow>
   sum_list (map hs_hidden_row_count (map2 sheet_data names wss)) =
     sum_list (map (\<lambda>ws. length (true_hidden_rows ws)) wss)"
  by (induction names wss rule: list_induct2) (simp_all add: sheet_data_eq)

lemma sum_hidden_column_counts:
  "length names = length wss \<Longrightarrow>
   sum_list (map hs_hidden_column_count (map2 sheet_data names wss)) =
     sum_list (map (\<lambda>ws. length (true_hidden_columns ws)) wss)"
  by (induction names wss rule: list_induct2) (simp_all add: sheet_data_eq)

lemma sheet_data_caps:
  "length (hs_hidden_rows (sheet_data n ws)) \<le> 50 \<and>
   length (hs_hidden_columns (sheet_data n ws)) \<le> 50 \<and>
   hs_hidden_rows (sheet_data n ws) = take 50 (filter (row_hidden ws) [1..<Suc (max_row ws)]) \<and>
   hs_hidden_columns (sheet_data n ws) =
     map get_column_letter
       (take 50 (filter (\<lambda>c. column_hidden ws (get_column_letter c)) [1..<Suc (max_column ws)])) \<and>
   hs_hidden_row_count (sheet_data n ws) =
     card {n. 1 \<le> n \<and> n \<le> max_row ws \<and> row_hidden ws n} \<and>
   hs_hidden_column_count (sheet_data n ws) =
     card {c. 1 \<le> c \<and> c \<le> max_column ws \<and> column_hidden ws (get_column_letter c)}"
  unfolding sheet_data_eq
  by (simp add: length_true_hidden_rows length_true_hidden_columns del: upt_Suc)
    (simp add: true_hidden_rows_def true_hidden_columns_def del: upt_Suc)

text \<open>
  Claim C2.  When the buffer loads, \<open>detect_hidden_content\<close> returns a report with one
  entry per worksheet.  In the entry of each worksheet the lists of hidden rows and of
  hidden columns have at most 50 elements: they are the first 50 hidden row numbers in
  ascending order, and the letters of the first 50 hidden column numbers in ascending
  order.  The two count fields are the numbers of hidden rows and of hidden columns in
  the bounding box of the worksheet, however many there are, and the totals of the
  report are the sums of these counts.
\<close>

theorem detect_hidden_content_caps:
  assumes "load_workbook_from_buffer lib file_buffer = Inr wb"
  shows "\<exists>r. detect_hidden_content lib filename file_buffer = Inr r \<and>
      length (hr_worksheets r) = length wb \<and>
      (\<forall>i<length wb. \<exists>ws.
         getitem wb (sheetnames wb ! i) = Inr ws \<and>
         length (hs_hidden_rows (hr_worksheets r ! i)) \<le> 50 \<and>
         length (hs_hidden_columns (hr_worksheets r ! i)) \<le> 50 \<and>
         hs_hidden_rows (hr_worksheets r ! i) =
           take 50 (filter (row_hidden ws) [1..<Suc (max_row ws)]) \<and>
         hs_hidden_columns (hr_worksheets r ! i) =
           map get_column_letter
             (take 50 (filter (\<lambda>c. column_hidden ws (get_column_letter c))
                [1..<Suc (max_column ws)])) \<and>
         hs_hidden_row_count (hr_worksheets r ! i) =
           card {n. 1 \<le> n \<and> n \<le> max_row ws \<and> row_hidden ws n} \<and>
         hs_hidden_column_count (hr_worksheets r ! i) =
           card {c. 1 \<le> c \<and> c \<le> max_column ws \<and> column_hidden ws (get_column_letter c)}) \<and>
      hr_total_hidden_rows r = sum_list (map hs_hidden_row_count (hr_worksheets r)) \<and>
      hr_total_hidden_columns r = sum_list (map hs_hidden_column_count (hr_worksheets r))"
proof -
  let ?es = "map2 sheet_data (sheetnames wb) (visited wb)"
  let ?r = "\<lparr>hr_filename = filename,
      hr_total_hidden_rows = sum_list (map (\<lambda>ws. length (true_hidden_rows ws)) (visited wb)),
      hr_total_hidden_columns = sum_list (map (\<lambda>ws. length (true_hidden_columns ws)) (visited wb)),
      hr_worksheets = ?es\<rparr>"
  have len: "length (sheetnames wb) = length (visited wb)"
    by (simp add: length_visited sheetnames_def)
  have run: "detect_hidden_content lib filename file_buffer = Inr ?r"
    using assms by (simp add: detect_hidden_content_eq)
  have n: "length (hr_worksheets ?r) = length wb"
    by (simp add: length_visited sheetnames_def)
  have each: "\<exists>ws. getitem wb (sheetnames wb ! i) = Inr ws \<and>
         length (hs_hidden_rows (hr_worksheets ?r ! i)) \<le> 50 \<and>
         length (hs_hidden_columns (hr_worksheets ?r ! i)) \<le> 50 \<and>
         hs_hidden_rows (hr_worksheets ?r ! i) =
           take 50 (filter (row_hidden ws) [1..<Suc (max_row ws)]) \<and>
         hs_hidden_columns (hr_worksheets ?r ! i) =
           map get_column_letter
             (take 50 (filter (\<lambda>c. column_hidden ws (get_column_letter c))
                [1..<Suc (max_column ws)])) \<and>
         hs_hidden_row_count (hr_worksheets ?r ! i) =
           card {n. 1 \<le> n \<and> n \<le> max_row ws \<and> row_hidden ws n} \<and>
         hs_hidden_column_count (hr_worksheets ?r ! i) =
           card {c. 1 \<le> c \<and> c \<le> max_column ws \<and> column_hidden ws (get_column_letter c)}"
    if i: "i < length wb" for i
  proof -
    have e: "hr_worksheets ?r ! i = sheet_data (sheetnames wb ! i) (visited wb ! i)"
      using hidden_entry_nth [OF i] by simp
    show ?thesis
      unfolding e
      by (rule exI [of _ "visited wb ! i"])
        (simp add: visited_nth [OF i] sheet_data_caps del: upt_Suc)
  qed
  have tr: "hr_total_hidden_rows ?r = sum_list (map hs_hidden_row_count (hr_worksheets ?r))"
    using sum_hidden_row_counts [OF len] by simp
  have tc: "hr_total_hidden_columns ?r = sum_list (map hs_hidden_column_count (hr_worksheets ?r))"
    using sum_hidden_column_counts [OF len] by simp
  show ?thesis
    apply (rule exI [of _ ?r])
    apply (intro conjI allI impI)
        apply (rule run)
       apply (rule n)
      apply (erule each)
     apply (rule tr)
    apply (rule tc)
    done
qed


lemma book_hidden_counts:
  "map_sum id (map hs_hidden_row_count \<circ> hr_worksheets)
     (detect_hidden_content example_library (JStr ''book.xlsx'') (Some ''book'')) = Inr [0, 1, 51]"
  by code_simp

lemma book_hidden_lengths:
  "map_sum id (map (length \<circ> hs_hidden_rows) \<circ> hr_worksheets)
     (detect_hidden_content example_library (JStr ''book.xlsx'') (Some ''book'')) = Inr [0, 1, 50]"
  by code_simp

lemma book_hidden_flags:
  "map_sum id (map hs_hidden \<circ> hr_worksheets)
     (detect_hidden_content example_library (JStr ''book.xlsx'') (Some ''book'')) =
     Inr [False, True, False]"
  by code_simp

lemma book_third: "getitem book (sheetnames book ! 2) = Inr archive"
  by (simp add: book_def sheetnames_def getitem_def sheet1_def notes_sheet_def archive_def)

lemma book_second: "getitem book (sheetnames book ! 1) = Inr notes_sheet"
  by (simp add: book_def sheetnames_def getitem_def sheet1_def notes_sheet_def archive_def)

theorem detect_hidden_content_caps_witness:
  "\<exists>r. detect_hidden_content example_library (JStr ''book.xlsx'') (Some ''book'') = Inr r \<and>
     length (hs_hidden_rows (hr_worksheets r ! 2)) \<le> 50 \<and>
     hs_hidden_rows (hr_worksheets r ! 2) = [1..<51] \<and>
     hs_hidden_row_count (hr_worksheets r ! 2) = 51"
proof -
  from detect_hidden_content_caps [OF load_book, where filename = "JStr ''book.xlsx''"]
  obtain r where run: "detect_hidden_content example_library (JStr ''book.xlsx'') (Some ''book'') = Inr r"
    and each: "\<forall>i<length book. \<exists>ws.
         getitem book (sheetnames book ! i) = Inr ws \<and>
         length (hs_hidden_rows (hr_worksheets r ! i)) \<le> 50 \<and>
         length (hs_hidden_columns (hr_worksheets r ! i)) \<le> 50 \<and>
         hs_hidden_rows (hr_worksheets r ! i) =
           take 50 (filter (row_hidden ws) [1..<Suc (max_row ws)]) \<and>
         hs_hidden_columns (hr_worksheets r ! i) =
           map get_column_letter
             (take 50 (filter (\<lambda>c. column_hidden ws (get_column_letter c))
                [1..<Suc (max_column ws)])) \<and>
         hs_hidden_row_count (hr_worksheets r ! i) =
           card {n. 1 \<le> n \<and> n \<le> max_row ws \<and> row_hidden ws n} \<and>
         hs_hidden_column_count (hr_worksheets r ! i) =
           card {c. 1 \<le> c \<and> c \<le> max_column ws \<and> column_hidden ws (get_column_letter c)}"
    by blast
  have "2 < length book" by (simp add: book_def)
  with each obtain ws where ws: "getitem book (sheetnames book ! 2) = Inr ws"
    and le: "length (hs_hidden_rows (hr_worksheets r ! 2)) \<le> 50"
    and rows: "hs_hidden_rows (hr_worksheets r ! 2) =
           take 50 (filter (row_hidden ws) [1..<Suc (max_row ws)])"
    and count: "hs_hidden_row_count (hr_worksheets r ! 2) =
           card {n. 1 \<le> n \<and> n \<le> max_row ws \<and> row_hidden ws n}"
    by blast
  have a: "ws = archive" using ws book_third by simp
  have "{n. 1 \<le> n \<and> n \<le> max_row archive \<and> row_hidden archive n} = {1..51}"
    by (auto simp: archive_def)
  then have c: "hs_hidden_row_count (hr_worksheets r ! 2) = 51"
    using count a by simp
  have "take 50 (filter (row_hidden archive) [1..<Suc (max_row archive)]) = [1..<51]"
    by (simp add: archive_def take_upt del: upt_Suc)
  then have "hs_hidden_rows (hr_worksheets r ! 2) = [1..<51]"
    using rows a by simp
  with run le c show ?thesis by blast
qed

text \<open>
  Claim C10.  In the entry of each worksheet of the hidden-content report, the field
  \<open>hidden\<close> is true exactly when the sheet state of the worksheet is the string
  \<^verbatim>\<open>hidden\<close>; for a worksheet in the state \<^verbatim>\<open>veryHidden\<close> it is false.
\<close>

theorem sheet_hidden_flag:
  assumes "load_workbook_from_buffer lib file_buffer = Inr wb"
  shows "\<exists>r. detect_hidden_content lib filename file_buffer = Inr r \<and>
      length (hr_worksheets r) = length wb \<and>
      (\<forall>i<length wb. \<exists>ws.
         getitem wb (sheetnames wb ! i) = Inr ws \<and>
         hs_sheet (hr_worksheets r ! i) = sheetnames wb ! i \<and>
         hs_hidden (hr_worksheets r ! i) = (sheet_state ws = ''hidden'') \<and>
         (sheet_state ws = ''veryHidden'' \<longrightarrow> \<not> hs_hidden (hr_worksheets r ! i)))"
proof -
  let ?r = "\<lparr>hr_filename = filename,
      hr_total_hidden_rows = sum_list (map (\<lambda>ws. length (true_hidden_rows ws)) (visited wb)),
      hr_total_hidden_columns = sum_list (map (\<lambda>ws. length (true_hidden_columns ws)) (visited wb)),
      hr_worksheets = map2 sheet_data (sheetnames wb) (visited wb)\<rparr>"
  have run: "detect_hidden_content lib filename file_buffer = Inr ?r"
    using assms by (simp add: detect_hidden_content_eq)
  have n: "length (hr_worksheets ?r) = length wb"
    by (simp add: length_visited sheetnames_def)
  have each: "\<exists>ws. getitem wb (sheetnames wb ! i) = Inr ws \<and>
         hs_sheet (hr_worksheets ?r ! i) = sheetnames wb ! i \<and>
         hs_hidden (hr_worksheets ?r ! i) = (sheet_state ws = ''hidden'') \<and>
         (sheet_state ws = ''veryHidden'' \<longrightarrow> \<not> hs_hidden (hr_worksheets ?r ! i))"
    if i: "i < length wb" for i
  proof -
    have e: "hr_worksheets ?r ! i = sheet_data (sheetnames wb ! i) (visited wb ! i)"
      using hidden_entry_nth [OF i] by simp
    show ?thesis
      unfolding e
      by (rule exI [of _ "visited wb ! i"]) (auto simp: visited_nth [OF i] sheet_data_eq)
  qed
  show ?thesis
    apply (rule exI [of _ ?r])
    apply (intro conjI allI impI)
      apply (rule run)
     apply (rule n)
    apply (erule each)
    done
qed

theorem sheet_hidden_flag_witness:
  "\<exists>r. detect_hidden_content example_library (JStr ''book.xlsx'') (Some ''book'') = Inr r \<and>
     hs_sheet (hr_worksheets r ! 1) = ''Notes'' \<and> hs_hidden (hr_worksheets r ! 1) \<and>
     hs_sheet (hr_worksheets r ! 2) = ''Archive'' \<and> \<not> hs_hidden (hr_worksheets r ! 2)"
proof -
  from sheet_hidden_flag [OF load_book, where filename = "JStr ''book.xlsx''"]
  obtain r where run: "detect_hidden_content example_library (JStr ''book.xlsx'') (Some ''book'') = Inr r"
    and each: "\<forall>i<length book. \<exists>ws.
         getitem book (sheetnames book ! i) = Inr ws \<and>
         hs_sheet (hr_worksheets r ! i) = sheetnames book ! i \<and>
         hs_hidden (hr_worksheets r ! i) = (sheet_state ws = ''hidden'') \<and>
         (sheet_state ws = ''veryHidden'' \<longrightarrow> \<not> hs_hidden (hr_worksheets r ! i))"
    by blast
  have "1 < length book" by (simp add: book_def)
  with each obtain ws1 where ws1: "getitem book (sheetnames book ! 1) = Inr ws1"
    and s1: "hs_sheet (hr_worksheets r ! 1) = sheetnames book ! 1"
    and h1: "hs_hidden (hr_worksheets r ! 1) = (sheet_state ws1 = ''hidden'')"
    by blast
  have "2 < length book" by (simp add: book_def)
  with each obtain ws2 where ws2: "getitem book (sheetnames book ! 2) = Inr ws2"
    and s2: "hs_sheet (hr_worksheets r ! 2) = sheetnames book ! 2"
    and h2: "sheet_state ws2 = ''veryHidden'' \<longrightarrow> \<not> hs_hidden (hr_worksheets r ! 2)"
    by blast
  have a1: "ws1 = notes_sheet" using ws1 book_second by simp
  have a2: "ws2 = archive" using ws2 book_third by simp
  have n1: "hs_sheet (hr_worksheets r ! 1) = ''Notes''"
    using s1 by (simp add: book_def sheetnames_def notes_sheet_def)
  have n2: "hs_sheet (hr_worksheets r ! 2) = ''Archive''"
    using s2 by (simp add: book_def sheetnames_def archive_def)
  have f1: "hs_hidden (hr_worksheets r ! 1)" using h1 a1 by (simp add: notes_sheet_def)
  have f2: "\<not> hs_hidden (hr_worksheets r ! 2)" using h2 a2 by (simp add: archive_def)
  from run n1 n2 f1 f2 show ?thesis by blast
qed

lemma comment_sheet_of_count:
  "e \<in> set (comment_sheet_of n ws) \<Longrightarrow> cs_comment_count e = length (cs_comments e)"
  by (auto simp: comment_sheet_of_def split: if_splits)

lemma question_sheet_of_count:
  "e \<in> set (question_sheet_of n ws) \<Longrightarrow> qs_question_count e = length (qs_questions e)"
  by (auto simp: question_sheet_of_def split: if_splits)

lemma sheet_data_lengths:
  "length (hs_hidden_rows (sheet_data n ws)) = min 50 (hs_hidden_row_count (sheet_data n ws)) \<and>
   length (hs_hidden_columns (sheet_data n ws)) = min 50 (hs_hidden_column_count (sheet_data n ws))"
  by (simp add: sheet_data_eq min_def)

text \<open>
  Claim C3, as amended.  In every entry of the comments report and of the questions
  report the count field is the length of the list of the entry.  In every entry of the
  hidden-content report the list of hidden rows has min(50, hidden_row_count) elements
  and the list of hidden columns min(50, hidden_column_count): the count is the length
  of the list only up to 50.
\<close>

theorem counts_and_list_lengths:
  assumes "load_workbook_from_buffer lib file_buffer = Inr wb"
  shows "\<exists>c q h.
      extract_comments lib filename file_buffer = Inr c \<and>
      extract_questions lib filename file_buffer = Inr q \<and>
      detect_hidden_content lib filename file_buffer = Inr h \<and>
      (\<forall>e\<in>set (cr_worksheets c). cs_comment_count e = length (cs_comments e)) \<and>
      (\<forall>e\<in>set (qr_worksheets q). qs_question_count e = length (qs_questions e)) \<and>
      (\<forall>e\<in>set (hr_worksheets h).
         length (hs_hidden_rows e) = min 50 (hs_hidden_row_count e) \<and>
         length (hs_hidden_columns e) = min 50 (hs_hidden_column_count e))"
proof -
  have c: "\<forall>e\<in>set (concat (map2 comment_sheet_of (sheetnames wb) (visited wb))).
      cs_comment_count e = length (cs_comments e)"
    by (auto dest: comment_sheet_of_count)
  have q: "\<forall>e\<in>set (concat (map2 question_sheet_of (sheetnames wb) (visited wb))).
      qs_question_count e = length (qs_questions e)"
    by (auto dest: question_sheet_of_count)
  have h: "\<forall>e\<in>set (map2 sheet_data (sheetnames wb) (visited wb)).
         length (hs_hidden_rows e) = min 50 (hs_hidden_row_count e) \<and>
         length (hs_hidden_columns e) = min 50 (hs_hidden_column_count e)"
    using sheet_data_lengths by auto
  show ?thesis
    using assms c q h
    by (simp add: extract_comments_eq extract_questions_eq detect_hidden_content_eq)
qed


lemma book_comment_counts:
  "map_sum id (map cs_comment_count \<circ> cr_worksheets)
     (extract_comments example_library (JStr ''book.xlsx'') (Some ''book'')) = Inr [2]"
  by code_simp

lemma book_question_counts:
  "map_sum id (map qs_question_count \<circ> qr_worksheets)
     (extract_questions example_library (JStr ''book.xlsx'') (Some ''book'')) = Inr [1, 1]"
  by code_simp

theorem counts_and_list_lengths_witness:
  "\<exists>c q h.
     extract_comments example_library (JStr ''book.xlsx'') (Some ''book'') = Inr c \<and>
     extract_questions example_library (JStr ''book.xlsx'') (Some ''book'') = Inr q \<and>
     detect_hidden_content example_library (JStr ''book.xlsx'') (Some ''book'') = Inr h \<and>
     map (length \<circ> cs_comments) (cr_worksheets c) = [2] \<and>
     map (length \<circ> qs_questions) (qr_worksheets q) = [1, 1] \<and>
     map (length \<circ> hs_hidden_rows) (hr_worksheets h) =
       map (min 50 \<circ> hs_hidden_row_count) (hr_worksheets h) \<and>
     map hs_hidden_row_count (hr_worksheets h) = [0, 1, 51]"
proof -
  from counts_and_list_lengths [OF load_book, where filename = "JStr ''book.xlsx''"]
  obtain c q h where
    c: "extract_comments example_library (JStr ''book.xlsx'') (Some ''book'') = Inr c"
    and q: "extract_questions example_library (JStr ''book.xlsx'') (Some ''book'') = Inr q"
    and h: "detect_hidden_content example_library (JStr ''book.xlsx'') (Some ''book'') = Inr h"
    and cc: "\<forall>e\<in>set (cr_worksheets c). cs_comment_count e = length (cs_comments e)"
    and qc: "\<forall>e\<in>set (qr_worksheets q). qs_question_count e = length (qs_questions e)"
    and hc: "\<forall>e\<in>set (hr_worksheets h).
         length (hs_hidden_rows e) = min 50 (hs_hidden_row_count e) \<and>
         length (hs_hidden_columns e) = min 50 (hs_hidden_column_count e)"
    by blast
  have "map (length \<circ> cs_comments) (cr_worksheets c) = map cs_comment_count (cr_worksheets c)"
    using cc by simp
  also have "map cs_comment_count (cr_worksheets c) = [2]"
    using book_comment_counts c by simp
  finally have 1: "map (length \<circ> cs_comments) (cr_worksheets c) = [2]" .
  have "map (length \<circ> qs_questions) (qr_worksheets q) = map qs_question_count (qr_worksheets q)"
    using qc by simp
  also have "map qs_question_count (qr_worksheets q) = [1, 1]"
    using book_question_counts q by simp
  finally have 2: "map (length \<circ> qs_questions) (qr_worksheets q) = [1, 1]" .
  have 3: "map (length \<circ> hs_hidden_rows) (hr_worksheets h) =
       map (min 50 \<circ> hs_hidden_row_count) (hr_worksheets h)"
    using hc by simp
  have 4: "map hs_hidden_row_count (hr_worksheets h) = [0, 1, 51]"
    using book_hidden_counts h by simp
  show ?thesis
    by (rule exI [of _ c], rule exI [of _ q], rule exI [of _ h]) (simp only: c q h 1 2 3 4 simp_thms)
qed

text \<open>
  Claim C3 as stated fails on the worksheet Archive, whose 51 rows are all hidden: its
  entry has \<open>hidden_row_count = 51\<close> beside a list of 50 rows.
\<close>

theorem hidden_count_exceeds_list_length:
  "map_sum id (map hs_hidden_row_count \<circ> hr_worksheets)
     (detect_hidden_content example_library (JStr ''book.xlsx'') (Some ''book'')) = Inr [0, 1, 51] \<and>
   map_sum id (map (length \<circ> hs_hidden_rows) \<circ> hr_worksheets)
     (detect_hidden_content example_library (JStr ''book.xlsx'') (Some ''book'')) = Inr [0, 1, 50]"
  using book_hidden_counts book_hidden_lengths by simp

section \<open>The questions report\<close>

text \<open>
  Claim C4.  The cell A1 of the sheet Tally holds the question "How many?" and the cell
  to its right, B1, holds the number 0, whose stringified value is "0".
  \<open>extract_questions\<close> reports the question with the answer cell B1 and with the empty
  string as its answer, not with "0": the answer is read under the same test of the
  truth value that empties the value of a commented cell holding 0.
\<close>

theorem extract_questions_zero_answer:
  "stored tally (1, 2) = Some (PInt 0, None) \<and>
   py_str (PInt 0) = ''0'' \<and>
   extract_questions tally_library (JStr ''tally.xlsx'') (Some ''tally'') =
     Inr \<lparr>qr_filename = JStr ''tally.xlsx'', qr_total_questions = 1,
          qr_worksheets =
            [\<lparr>qs_sheet = ''Tally'', qs_question_count = 1,
              qs_questions =
                [\<lparr>qe_cell = ''A1'', qe_question = ''How many?'',
                  qe_answer_cell = Some ''B1'', qe_answer = []\<rparr>]\<rparr>]\<rparr>"
  by code_simp

section \<open>The comments report\<close>

text \<open>
  Claim C5.  The cell A1 of the sheet Notes holds the number 0, whose stringified value
  is "0", and a comment; \<open>extract_comments\<close> reports the value of that cell as the empty
  string.  The comment of B2, which has no author attribute, is reported with the author
  "Unknown".
\<close>

theorem extract_comments_zero_value:
  "stored notes_sheet (1, 1) = Some (PInt 0, Some \<lparr>cm_text = ''check'', cm_author = Some (PStr ''Ana'')\<rparr>) \<and>
   py_str (PInt 0) = ''0'' \<and>
   extract_comments example_library (JStr ''book.xlsx'') (Some ''book'') =
     Inr \<lparr>cr_filename = JStr ''book.xlsx'', cr_total_comments = 2,
          cr_worksheets =
            [\<lparr>cs_sheet = ''Notes'', cs_comment_count = 2,
              cs_comments =
                [\<lparr>ce_cell = ''A1'', ce_value = [], ce_comment = ''check'',
                  ce_author = PStr ''Ana''\<rparr>,
                 \<lparr>ce_cell = ''B2'', ce_value = ''why?'', ce_comment = ''later'',
                  ce_author = PStr ''Unknown''\<rparr>]\<rparr>]\<rparr>"
  by code_simp

section \<open>The dispatch layer: calls, buffers and the loop\<close>

lemma tool_names_eq:
  "tool_names =
     [JStr ''extract_comments'', JStr ''extract_questions'', JStr ''detect_hidden_content'',
      JStr ''comprehensive_analysis'']"
  by (simp add: tool_names_def TOOLS_def dict_get_def)

lemma load_not_unknown_tool: "load_workbook_from_buffer lib buf \<noteq> Inl (UnknownTool v)"
  by (simp add: load_workbook_from_buffer_def split: option.splits sum.splits)

lemma comprehensive_analysis_eq:
  "comprehensive_analysis lib f buf =
     (case load_workbook_from_buffer lib buf of
        Inl e \<Rightarrow> Inl e
      | Inr wb \<Rightarrow>
          Inr \<lparr>ca_filename = f,
               ca_summary =
                 \<lparr>sm_total_comments =
                    sum_list (map (\<lambda>ws. length (commented_cells ws)) (visited wb)),
                  sm_total_questions =
                    sum_list (map (\<lambda>ws. length (question_cells ws)) (visited wb)),
                  sm_total_hidden_rows =
                    sum_list (map (\<lambda>ws. length (true_hidden_rows ws)) (visited wb)),
                  sm_total_hidden_columns =
                    sum_list (map (\<lambda>ws. length (true_hidden_columns ws)) (visited wb)),
                  sm_worksheet_count = length (map2 sheet_data (sheetnames wb) (visited wb))\<rparr>,
               ca_comments =
                 \<lparr>cr_filename = f,
                  cr_total_comments =
                    sum_list (map (\<lambda>ws. length (commented_cells ws)) (visited wb)),
                  cr_worksheets = concat (map2 comment_sheet_of (sheetnames wb) (visited wb))\<rparr>,
               ca_questions =
                 \<lparr>qr_filename = f,
                  qr_total_questions =
                    sum_list (map (\<lambda>ws. length (question_cells ws)) (visited wb)),
                  qr_worksheets = concat (map2 question_sheet_of (sheetnames wb) (visited wb))\<rparr>,
               ca_hidden_content =
                 \<lparr>hr_filename = f,
                  hr_total_hidden_rows =
                    sum_list (map (\<lambda>ws. length (true_hidden_rows ws)) (visited wb)),
                  hr_total_hidden_columns =
                    sum_list (map (\<lambda>ws. length (true_hidden_columns ws)) (visited wb)),
                  hr_worksheets = map2 sheet_data (sheetnames wb) (visited wb)\<rparr>\<rparr>)"
  by (simp add: comprehensive_analysis_def extract_comments_eq extract_questions_eq
      detect_hidden_content_eq split: sum.splits)

lemma call_tool_known:
  "n \<in> set tool_names \<Longrightarrow> call_tool lib n f buf \<noteq> Inl (UnknownTool v)"
  using load_not_unknown_tool [of lib buf v]
  by (auto simp: tool_names_eq call_tool_def extract_comments_eq extract_questions_eq
      detect_hidden_content_eq comprehensive_analysis_eq split: sum.splits)

lemma call_tool_unknown:
  "n \<notin> set tool_names \<Longrightarrow> call_tool lib n f buf = Inl (UnknownTool n)"
  by (simp add: tool_names_eq call_tool_def)

lemma call_tool_load_failure:
  "n \<in> set tool_names \<Longrightarrow> load_workbook_from_buffer lib buf = Inl e \<Longrightarrow>
   call_tool lib n f buf = Inl e"
  by (auto simp: tool_names_eq call_tool_def extract_comments_eq extract_questions_eq
      detect_hidden_content_eq comprehensive_analysis_eq)

lemma call_tool_relabel:
  "call_tool lib n f' buf = map_sum id (relabel f') (call_tool lib n f buf)"
  by (simp add: call_tool_def extract_comments_eq extract_questions_eq
      detect_hidden_content_eq comprehensive_analysis_eq split: sum.splits)

lemma py_get_not_unknown_tool: "py_get x k d \<noteq> Inl (UnknownTool v)"
  by (cases x) (simp_all add: no_attribute_def)

lemma request_buffer_not_unknown_tool: "request_buffer lib request \<noteq> Inl (UnknownTool v)"
  by (simp add: request_buffer_def split: option.splits sum.splits)

lemma tools_call_known:
  assumes "py_get params ''name'' JNull = Inr n" and "n \<in> set tool_names"
  shows "tools_call lib request params \<noteq> Inl (UnknownTool v)"
  using assms call_tool_known [OF assms(2), of lib _ _ v] py_get_not_unknown_tool
    request_buffer_not_unknown_tool [of lib request v]
  by (auto simp: tools_call_def split: sum.splits)

lemma tools_call_well_formed:
  assumes "dict_get p ''arguments'' (JObj []) = JObj a"
    and "request_buffer lib request = Inr buf"
  shows "tools_call lib request (JObj p) =
     map_sum id Content
       (call_tool lib (dict_get p ''name'' JNull) (dict_get a ''filename'' JNull) buf)"
  using assms by (simp add: tools_call_def split: sum.splits)

lemma strip_empty: "(strip s = []) = (\<forall>c\<in>set s. is_space c)"
proof
  assume "strip s = []"
  then have a: "\<forall>c\<in>set (dropWhile is_space s). is_space c"
    by (simp add: strip_def)
  have "dropWhile is_space s = []"
  proof (rule ccontr)
    assume n: "dropWhile is_space s \<noteq> []"
    then have "\<not> is_space (hd (dropWhile is_space s))" by (rule hd_dropWhile)
    moreover have "hd (dropWhile is_space s) \<in> set (dropWhile is_space s)" using n by simp
    ultimately show False using a by blast
  qed
  then show "\<forall>c\<in>set s. is_space c" by simp
next
  assume "\<forall>c\<in>set s. is_space c"
  then have d: "dropWhile is_space s = []" by simp
  show "strip s = []" unfolding strip_def d by simp
qed

lemma main_loop_eq:
  "main_loop lib stdin =
     concat (map (\<lambda>line. if strip line = [] then [Read line]
                          else [Read line, Stdout (respond lib line)]) stdin)"
  by (induction stdin) auto

lemma main_loop_outputs:
  "length (filter is_stdout (main_loop lib stdin)) =
     length (filter (\<lambda>line. strip line \<noteq> []) stdin)"
  by (induction stdin) auto

section \<open>The main loop\<close>

text \<open>
  Claim C8, as amended.  After the banner on the diagnostic stream, the loop reads the
  lines in order; a line that is not blank is followed, before the next line is read,
  by exactly one line of output, the response to it, and a blank line (one that
  \<open>strip\<close> empties: every character of it is white space) is followed by none.  So the
  number of lines of output is the number of lines that are not blank.
\<close>

theorem main_trace:
  "main lib stdin =
     Stderr ''Python Excel Analysis MCP Server starting...'' #
     concat (map (\<lambda>line. if strip line = [] then [Read line]
                          else [Read line, Stdout (respond lib line)]) stdin) \<and>
   length (filter is_stdout (main lib stdin)) =
     length (filter (\<lambda>line. strip line \<noteq> []) stdin) \<and>
   (\<forall>line. (strip line = []) = (\<forall>c\<in>set line. is_space c))"
proof (intro conjI)
  show "main lib stdin =
     Stderr ''Python Excel Analysis MCP Server starting...'' #
     concat (map (\<lambda>line. if strip line = [] then [Read line]
                          else [Read line, Stdout (respond lib line)]) stdin)"
    by (simp only: main_def main_loop_eq)
  show "length (filter is_stdout (main lib stdin)) =
     length (filter (\<lambda>line. strip line \<noteq> []) stdin)"
    using main_loop_outputs [of lib stdin] by (simp add: main_def)
  show "\<forall>line. (strip line = []) = (\<forall>c\<in>set line. is_space c)"
    using strip_empty by blast
qed

lemma strip_examples:
  "strip [CHR 0x0A] = []" "strip ''{}'' = ''{}''" "strip ''x'' = ''x''"
  by (simp_all add: strip_def is_space_def)

lemma respond_examples:
  "respond example_library ''{}'' =
     Failure (JInt 0) (- 32603) ''Internal error'' ''Unknown method: None''"
  "respond example_library ''x'' =
     Failure (JInt 0) (- 32700) ''Parse error'' ''Expecting value: line 1 column 1 (char 0)''"
  by (simp_all add: respond_def example_library_def dispatch_def dict_get_def parse_error_def
      list_line_def call_line_def dquote_def)

theorem main_trace_witness:
  "main example_library [[CHR 0x0A], ''{}'', ''x''] =
     [Stderr ''Python Excel Analysis MCP Server starting...'',
      Read [CHR 0x0A],
      Read ''{}'',
      Stdout (Failure (JInt 0) (- 32603) ''Internal error'' ''Unknown method: None''),
      Read ''x'',
      Stdout (Failure (JInt 0) (- 32700) ''Parse error''
        ''Expecting value: line 1 column 1 (char 0)'')]"
  using main_trace [of example_library "[[CHR 0x0A], ''{}'', ''x'']"]
  by (simp add: strip_examples respond_examples)

text \<open>
  Claim C8 as stated fails on an input of one empty line: the line is read and nothing
  is written to the output.
\<close>

theorem blank_line_without_response:
  "main example_library [[CHR 0x0A]] =
     [Stderr ''Python Excel Analysis MCP Server starting...'', Read [CHR 0x0A]]"
  by (simp add: main_def strip_examples)

section \<open>Calls without a file\<close>

lemma load_none:
  "load_workbook_from_buffer lib None =
     Inl (TypeError (''a bytes-like object is required, not '' @ quote ''NoneType''))"
  by (simp add: load_workbook_from_buffer_def)

lemma handle_request_tools_call:
  assumes "dict_get request ''method'' JNull = JStr ''tools/call''"
  shows "handle_request lib (JObj request) =
     Inr (case tools_call lib request (dict_get request ''params'' (JObj [])) of
            Inr result \<Rightarrow> Success (dict_get request ''id'' (JInt 0)) result
          | Inl e \<Rightarrow>
              Failure (dict_get request ''id'' (JInt 0)) (- 32603) ''Internal error''
                (str_exn lib e))"
  using assms by (simp add: dispatch_def Let_def)

lemma tools_call_no_buffer:
  assumes "dict_get p ''name'' JNull \<in> set tool_names"
    and "request_buffer lib request = Inr None"
  shows "\<exists>e. tools_call lib request (JObj p) = Inl e \<and>
     (\<forall>a. dict_get p ''arguments'' (JObj []) = JObj a \<longrightarrow>
        e = TypeError (''a bytes-like object is required, not '' @ quote ''NoneType''))"
proof (cases "py_get (dict_get p ''arguments'' (JObj [])) ''filename'' JNull")
  case (Inl e)
  then have "\<forall>a. dict_get p ''arguments'' (JObj []) \<noteq> JObj a" by auto
  with Inl show ?thesis by (simp add: tools_call_def)
next
  case (Inr f)
  have "call_tool lib (dict_get p ''name'' JNull) f None =
      Inl (TypeError (''a bytes-like object is required, not '' @ quote ''NoneType''))"
    by (rule call_tool_load_failure [OF assms(1) load_none])
  with Inr assms(2) show ?thesis by (simp add: tools_call_def)
qed

text \<open>
  Claim C9.  Take a request whose method is \<^verbatim>\<open>tools/call\<close>, whose \<^verbatim>\<open>params\<close> name a tool
  of the catalog, and which has no \<^verbatim>\<open>fileContent\<close>.  Its file buffer is \<^verbatim>\<open>None\<close>,
  staging \<^verbatim>\<open>None\<close> fails, and the response is an error with the id of the request and
  the code -32603; when the arguments are a dictionary (or absent) its data is the
  message of that staging failure.  The bytes of a request that has a \<^verbatim>\<open>fileContent\<close>
  are the base64 decoding of that field, and the file name only labels the report: a
  tool called under another file name returns the same report under the other name.
\<close>

theorem tools_call_without_file_content:
  assumes "dict_get request ''method'' JNull = JStr ''tools/call''"
    and "map_of request ''fileContent'' = None"
    and "dict_get request ''params'' (JObj []) = JObj p"
    and "dict_get p ''name'' JNull \<in> set tool_names"
  shows "request_buffer lib request = Inr None \<and>
     load_workbook_from_buffer lib None =
       Inl (TypeError (''a bytes-like object is required, not '' @ quote ''NoneType'')) \<and>
     (\<exists>cause. handle_request lib (JObj request) =
        Inr (Failure (dict_get request ''id'' (JInt 0)) (- 32603) ''Internal error'' cause)) \<and>
     (\<forall>a. dict_get p ''arguments'' (JObj []) = JObj a \<longrightarrow>
        handle_request lib (JObj request) =
          Inr (Failure (dict_get request ''id'' (JInt 0)) (- 32603) ''Internal error''
                 (''a bytes-like object is required, not '' @ quote ''NoneType''))) \<and>
     (\<forall>request' c. map_of request' ''fileContent'' = Some c \<longrightarrow>
        request_buffer lib request' =
          (case b64decode lib c of Inl m \<Rightarrow> Inl (DecodeError m) | Inr b \<Rightarrow> Inr (Some b))) \<and>
     (\<forall>n f f' buf. call_tool lib n f' buf = map_sum id (relabel f') (call_tool lib n f buf))"
proof -
  have buf: "request_buffer lib request = Inr None"
    using assms(2) by (simp add: request_buffer_def)
  from tools_call_no_buffer [OF assms(4) buf]
  obtain e where e: "tools_call lib request (JObj p) = Inl e"
    and cause: "\<forall>a. dict_get p ''arguments'' (JObj []) = JObj a \<longrightarrow>
        e = TypeError (''a bytes-like object is required, not '' @ quote ''NoneType'')"
    by blast
  have h: "handle_request lib (JObj request) =
      Inr (Failure (dict_get request ''id'' (JInt 0)) (- 32603) ''Internal error'' (str_exn lib e))"
    using handle_request_tools_call [OF assms(1), of lib] assms(3) e by simp
  have 3: "\<exists>cause. handle_request lib (JObj request) =
        Inr (Failure (dict_get request ''id'' (JInt 0)) (- 32603) ''Internal error'' cause)"
    using h by blast
  have 4: "\<forall>a. dict_get p ''arguments'' (JObj []) = JObj a \<longrightarrow>
        handle_request lib (JObj request) =
          Inr (Failure (dict_get request ''id'' (JInt 0)) (- 32603) ''Internal error''
                 (''a bytes-like object is required, not '' @ quote ''NoneType''))"
    using h cause by auto
  have 5: "\<forall>request' c. map_of request' ''fileContent'' = Some c \<longrightarrow>
        request_buffer lib request' =
          (case b64decode lib c of Inl m \<Rightarrow> Inl (DecodeError m) | Inr b \<Rightarrow> Inr (Some b))"
    by (simp add: request_buffer_def)
  have 6: "\<forall>n f f' buf. call_tool lib n f' buf = map_sum id (relabel f') (call_tool lib n f buf)"
    using call_tool_relabel by blast
  from buf load_none 3 4 5 6 show ?thesis by (intro conjI)
qed

theorem tools_call_without_file_content_witness:
  "handle_request example_library
     (JObj [(''id'', JInt 3), (''method'', JStr ''tools/call''),
            (''params'', JObj [(''name'', JStr ''extract_comments''),
                             (''arguments'', JObj [(''filename'', JStr ''book.xlsx'')])])]) =
     Inr (Failure (JInt 3) (- 32603) ''Internal error''
            (''a bytes-like object is required, not '' @ quote ''NoneType''))"
proof -
  let ?p = "[(''name'', JStr ''extract_comments''),
             (''arguments'', JObj [(''filename'', JStr ''book.xlsx'')])]"
  let ?request = "[(''id'', JInt 3), (''method'', JStr ''tools/call''), (''params'', JObj ?p)]"
  have 1: "dict_get ?request ''method'' JNull = JStr ''tools/call''" by (simp add: dict_get_def)
  have 2: "map_of ?request ''fileContent'' = None" by simp
  have 3: "dict_get ?request ''params'' (JObj []) = JObj ?p" by (simp add: dict_get_def)
  have 4: "dict_get ?p ''name'' JNull \<in> set tool_names"
    by (simp add: dict_get_def tool_names_eq)
  have 5: "dict_get ?p ''arguments'' (JObj []) = JObj [(''filename'', JStr ''book.xlsx'')]"
    by (simp add: dict_get_def)
  have 6: "dict_get ?request ''id'' (JInt 0) = JInt 3" by (simp add: dict_get_def)
  from tools_call_without_file_content [OF 1 2 3 4, of example_library] 5
  have "handle_request example_library (JObj ?request) =
      Inr (Failure (dict_get ?request ''id'' (JInt 0)) (- 32603) ''Internal error''
             (''a bytes-like object is required, not '' @ quote ''NoneType''))"
    by blast
  then show ?thesis by (simp only: 6)
qed

section \<open>The catalog and the dispatch of calls\<close>

lemma handle_request_tools_list:
  "dict_get request ''method'' JNull = JStr ''tools/list'' \<Longrightarrow>
   handle_request lib (JObj request) =
     Inr (Success (dict_get request ''id'' (JInt 0)) (Protocol (JObj [(''tools'', JList TOOLS)])))"
  by (simp add: dispatch_def Let_def)

lemma call_tool_passes:
  "call_tool lib (JStr ''extract_comments'') f buf =
     map_sum id CommentsResult (extract_comments lib f buf) \<and>
   call_tool lib (JStr ''extract_questions'') f buf =
     map_sum id QuestionsResult (extract_questions lib f buf) \<and>
   call_tool lib (JStr ''detect_hidden_content'') f buf =
     map_sum id HiddenResult (detect_hidden_content lib f buf) \<and>
   call_tool lib (JStr ''comprehensive_analysis'') f buf =
     map_sum id ComprehensiveResult (comprehensive_analysis lib f buf)"
  by (simp add: call_tool_def)

lemma tools_call_params_not_object:
  assumes "\<forall>p. params \<noteq> JObj p"
  shows "tools_call lib request params =
     Inl (AttributeError (quote (type_name params) @ '' object has no attribute '' @ quote ''get''))"
  using assms by (cases params) (simp_all add: tools_call_def no_attribute_def)

lemma tools_call_arguments_not_object:
  assumes "\<forall>a. dict_get p ''arguments'' (JObj []) \<noteq> JObj a"
  shows "tools_call lib request (JObj p) =
     Inl (AttributeError
       (quote (type_name (dict_get p ''arguments'' (JObj []))) @ '' object has no attribute '' @
        quote ''get''))"
  using assms
  by (cases "dict_get p ''arguments'' (JObj [])") (simp_all add: tools_call_def no_attribute_def)

lemma tools_call_decode_failure:
  assumes "dict_get p ''arguments'' (JObj []) = JObj a"
    and "map_of request ''fileContent'' = Some c" and "b64decode lib c = Inl m"
  shows "tools_call lib request (JObj p) = Inl (DecodeError m)"
  using assms by (simp add: tools_call_def request_buffer_def)

text \<open>
  Claim C7, as amended.  The catalog has exactly four tool descriptors, with the names
  extract_comments, extract_questions, detect_hidden_content and comprehensive_analysis,
  and a \<^verbatim>\<open>tools/list\<close> request is answered with it.  A \<^verbatim>\<open>tools/call\<close> request is answered
  with the result of the call, or with the error -32603 that carries its exception.  A
  call whose \<^verbatim>\<open>params\<close> name a tool of the catalog never fails with the unknown-tool
  error.  When the arguments are a dictionary (or absent) and the file content is absent
  or decodes, the call is the engine pass of that name on the file name and the buffer,
  and a call with a name outside the catalog fails with the unknown-tool error for that
  name.  Otherwise the call fails earlier, whatever its name: with the attribute error
  of \<^verbatim>\<open>get\<close> when the \<^verbatim>\<open>params\<close> or the arguments are not a dictionary, and with the
  error of the decoder when the arguments are a dictionary and the file content does not
  decode.
\<close>

theorem tools_catalog_dispatch:
  "length TOOLS = 4 \<and>
   tool_names =
     [JStr ''extract_comments'', JStr ''extract_questions'', JStr ''detect_hidden_content'',
      JStr ''comprehensive_analysis''] \<and>
   (\<forall>request. dict_get request ''method'' JNull = JStr ''tools/list'' \<longrightarrow>
      handle_request lib (JObj request) =
        Inr (Success (dict_get request ''id'' (JInt 0))
               (Protocol (JObj [(''tools'', JList TOOLS)])))) \<and>
   (\<forall>request. dict_get request ''method'' JNull = JStr ''tools/call'' \<longrightarrow>
      handle_request lib (JObj request) =
        Inr (case tools_call lib request (dict_get request ''params'' (JObj [])) of
               Inr result \<Rightarrow> Success (dict_get request ''id'' (JInt 0)) result
             | Inl e \<Rightarrow>
                 Failure (dict_get request ''id'' (JInt 0)) (- 32603) ''Internal error''
                   (str_exn lib e))) \<and>
   (\<forall>request params n v. py_get params ''name'' JNull = Inr n \<longrightarrow> n \<in> set tool_names \<longrightarrow>
      tools_call lib request params \<noteq> Inl (UnknownTool v)) \<and>
   (\<forall>request p a buf.
      dict_get p ''arguments'' (JObj []) = JObj a \<longrightarrow> request_buffer lib request = Inr buf \<longrightarrow>
      tools_call lib request (JObj p) =
        map_sum id Content
          (call_tool lib (dict_get p ''name'' JNull) (dict_get a ''filename'' JNull) buf) \<and>
      (dict_get p ''name'' JNull \<notin> set tool_names \<longrightarrow>
         tools_call lib request (JObj p) = Inl (UnknownTool (dict_get p ''name'' JNull)))) \<and>
   (\<forall>f buf.
      call_tool lib (JStr ''extract_comments'') f buf =
        map_sum id CommentsResult (extract_comments lib f buf) \<and>
      call_tool lib (JStr ''extract_questions'') f buf =
        map_sum id QuestionsResult (extract_questions lib f buf) \<and>
      call_tool lib (JStr ''detect_hidden_content'') f buf =
        map_sum id HiddenResult (detect_hidden_content lib f buf) \<and>
      call_tool lib (JStr ''comprehensive_analysis'') f buf =
        map_sum id ComprehensiveResult (comprehensive_analysis lib f buf)) \<and>
   (\<forall>request params. (\<forall>p. params \<noteq> JObj p) \<longrightarrow>
      tools_call lib request params =
        Inl (AttributeError
          (quote (type_name params) @ '' object has no attribute '' @ quote ''get''))) \<and>
   (\<forall>request p. (\<forall>a. dict_get p ''arguments'' (JObj []) \<noteq> JObj a) \<longrightarrow>
      tools_call lib request (JObj p) =
        Inl (AttributeError
          (quote (type_name (dict_get p ''arguments'' (JObj []))) @
           '' object has no attribute '' @ quote ''get''))) \<and>
   (\<forall>request p a c m.
      dict_get p ''arguments'' (JObj []) = JObj a \<longrightarrow>
      map_of request ''fileContent'' = Some c \<longrightarrow> b64decode lib c = Inl m \<longrightarrow>
      tools_call lib request (JObj p) = Inl (DecodeError m))"
proof (intro conjI)
  show "\<forall>request params. (\<forall>p. params \<noteq> JObj p) \<longrightarrow>
      tools_call lib request params =
        Inl (AttributeError
          (quote (type_name params) @ '' object has no attribute '' @ quote ''get''))"
    using tools_call_params_not_object by blast
  show "\<forall>request p. (\<forall>a. dict_get p ''arguments'' (JObj []) \<noteq> JObj a) \<longrightarrow>
      tools_call lib request (JObj p) =
        Inl (AttributeError
          (quote (type_name (dict_get p ''arguments'' (JObj []))) @
           '' object has no attribute '' @ quote ''get''))"
    using tools_call_arguments_not_object by blast
  show "\<forall>request p a c m.
      dict_get p ''arguments'' (JObj []) = JObj a \<longrightarrow>
      map_of request ''fileContent'' = Some c \<longrightarrow> b64decode lib c = Inl m \<longrightarrow>
      tools_call lib request (JObj p) = Inl (DecodeError m)"
    using tools_call_decode_failure by blast
  show "length TOOLS = 4" by (simp add: TOOLS_def)
  show "tool_names =
     [JStr ''extract_comments'', JStr ''extract_questions'', JStr ''detect_hidden_content'',
      JStr ''comprehensive_analysis'']"
    by (rule tool_names_eq)
  show "\<forall>request. dict_get request ''method'' JNull = JStr ''tools/list'' \<longrightarrow>
      handle_request lib (JObj request) =
        Inr (Success (dict_get request ''id'' (JInt 0))
               (Protocol (JObj [(''tools'', JList TOOLS)])))"
    using handle_request_tools_list by blast
  show "\<forall>request. dict_get request ''method'' JNull = JStr ''tools/call'' \<longrightarrow>
      handle_request lib (JObj request) =
        Inr (case tools_call lib request (dict_get request ''params'' (JObj [])) of
               Inr result \<Rightarrow> Success (dict_get request ''id'' (JInt 0)) result
             | Inl e \<Rightarrow>
                 Failure (dict_get request ''id'' (JInt 0)) (- 32603) ''Internal error''
                   (str_exn lib e))"
    using handle_request_tools_call by blast
  show "\<forall>request params n v. py_get params ''name'' JNull = Inr n \<longrightarrow> n \<in> set tool_names \<longrightarrow>
      tools_call lib request params \<noteq> Inl (UnknownTool v)"
    using tools_call_known by blast
  show "\<forall>request p a buf.
      dict_get p ''arguments'' (JObj []) = JObj a \<longrightarrow> request_buffer lib request = Inr buf \<longrightarrow>
      tools_call lib request (JObj p) =
        map_sum id Content
          (call_tool lib (dict_get p ''name'' JNull) (dict_get a ''filename'' JNull) buf) \<and>
      (dict_get p ''name'' JNull \<notin> set tool_names \<longrightarrow>
         tools_call lib request (JObj p) = Inl (UnknownTool (dict_get p ''name'' JNull)))"
    by (simp add: tools_call_well_formed call_tool_unknown)
  show "\<forall>f buf.
      call_tool lib (JStr ''extract_comments'') f buf =
        map_sum id CommentsResult (extract_comments lib f buf) \<and>
      call_tool lib (JStr ''extract_questions'') f buf =
        map_sum id QuestionsResult (extract_questions lib f buf) \<and>
      call_tool lib (JStr ''detect_hidden_content'') f buf =
        map_sum id HiddenResult (detect_hidden_content lib f buf) \<and>
      call_tool lib (JStr ''comprehensive_analysis'') f buf =
        map_sum id ComprehensiveResult (comprehensive_analysis lib f buf)"
    using call_tool_passes by blast
qed


lemma scenario_questions:
  "extract_questions example_library (JStr ''book.xlsx'') (Some ''scenario'') =
     Inr \<lparr>qr_filename = JStr ''book.xlsx'', qr_total_questions = 1,
          qr_worksheets =
            [\<lparr>qs_sheet = ''Sheet1'', qs_question_count = 1,
              qs_questions =
                [\<lparr>qe_cell = ''A1'', qe_question = ''Is this done?'',
                  qe_answer_cell = Some ''B1'', qe_answer = ''Yes''\<rparr>]\<rparr>]\<rparr>"
  by code_simp

theorem tools_catalog_dispatch_witness:
  "handle_request example_library
     (JObj [(''id'', JInt 7), (''method'', JStr ''tools/call''),
            (''params'', JObj [(''name'', JStr ''extract_questions''),
                             (''arguments'', JObj [(''filename'', JStr ''book.xlsx'')])]),
            (''fileContent'', JStr ''c2NlbmFyaW8='')]) =
     Inr (Success (JInt 7)
            (Content (QuestionsResult
               \<lparr>qr_filename = JStr ''book.xlsx'', qr_total_questions = 1,
                qr_worksheets =
                  [\<lparr>qs_sheet = ''Sheet1'', qs_question_count = 1,
                    qs_questions =
                      [\<lparr>qe_cell = ''A1'', qe_question = ''Is this done?'',
                        qe_answer_cell = Some ''B1'', qe_answer = ''Yes''\<rparr>]\<rparr>]\<rparr>))) \<and>
   handle_request example_library
     (JObj [(''method'', JStr ''tools/call''), (''params'', JObj [(''name'', JStr ''bogus'')])]) =
     Inr (Failure (JInt 0) (- 32603) ''Internal error'' ''Unknown tool: bogus'') \<and>
   handle_request example_library
     (JObj [(''method'', JStr ''tools/call''),
            (''params'', JObj [(''name'', JStr ''extract_comments''), (''arguments'', JList [])])]) =
     Inr (Failure (JInt 0) (- 32603) ''Internal error''
            (quote ''list'' @ '' object has no attribute '' @ quote ''get'')) \<and>
   handle_request example_library
     (JObj [(''method'', JStr ''tools/call''), (''params'', JObj [(''name'', JStr ''bogus'')]),
            (''fileContent'', JStr ''abc'')]) =
     Inr (Failure (JInt 0) (- 32603) ''Internal error'' ''Incorrect padding'')"
proof -
  let ?p = "[(''name'', JStr ''extract_questions''),
             (''arguments'', JObj [(''filename'', JStr ''book.xlsx'')])]"
  let ?request = "[(''id'', JInt 7), (''method'', JStr ''tools/call''), (''params'', JObj ?p),
                   (''fileContent'', JStr ''c2NlbmFyaW8='')]"
  let ?q = "[(''name'', JStr ''bogus'')]"
  let ?bogus = "[(''method'', JStr ''tools/call''), (''params'', JObj ?q)]"
  note T = tools_catalog_dispatch [of example_library]
  have handle: "\<And>request. dict_get request ''method'' JNull = JStr ''tools/call'' \<Longrightarrow>
      handle_request example_library (JObj request) =
        Inr (case tools_call example_library request (dict_get request ''params'' (JObj [])) of
               Inr result \<Rightarrow> Success (dict_get request ''id'' (JInt 0)) result
             | Inl e \<Rightarrow>
                 Failure (dict_get request ''id'' (JInt 0)) (- 32603) ''Internal error''
                   (str_exn example_library e))"
    using T by blast
  have call: "\<And>request p a buf.
      dict_get p ''arguments'' (JObj []) = JObj a \<Longrightarrow>
      request_buffer example_library request = Inr buf \<Longrightarrow>
      tools_call example_library request (JObj p) =
        map_sum id Content
          (call_tool example_library (dict_get p ''name'' JNull) (dict_get a ''filename'' JNull)
             buf) \<and>
      (dict_get p ''name'' JNull \<notin> set tool_names \<longrightarrow>
         tools_call example_library request (JObj p) =
           Inl (UnknownTool (dict_get p ''name'' JNull)))"
    using T by blast
  have pass: "\<And>f buf. call_tool example_library (JStr ''extract_questions'') f buf =
        map_sum id QuestionsResult (extract_questions example_library f buf)"
    using T by blast
  have names: "tool_names =
     [JStr ''extract_comments'', JStr ''extract_questions'', JStr ''detect_hidden_content'',
      JStr ''comprehensive_analysis'']"
    using T by blast
  have b1: "request_buffer example_library ?request = Inr (Some ''scenario'')"
    by (simp add: request_buffer_def example_library_def)
  have a1: "dict_get ?p ''arguments'' (JObj []) = JObj [(''filename'', JStr ''book.xlsx'')]"
    by (simp add: dict_get_def)
  have t1: "tools_call example_library ?request (JObj ?p) =
      map_sum id Content
        (call_tool example_library (JStr ''extract_questions'') (JStr ''book.xlsx'')
           (Some ''scenario''))"
    using call [OF a1 b1, THEN conjunct1] by (simp add: dict_get_def)
  have m1: "dict_get ?request ''method'' JNull = JStr ''tools/call''" by (simp add: dict_get_def)
  have 1: "handle_request example_library (JObj ?request) =
     Inr (Success (JInt 7)
            (Content (QuestionsResult
               \<lparr>qr_filename = JStr ''book.xlsx'', qr_total_questions = 1,
                qr_worksheets =
                  [\<lparr>qs_sheet = ''Sheet1'', qs_question_count = 1,
                    qs_questions =
                      [\<lparr>qe_cell = ''A1'', qe_question = ''Is this done?'',
                        qe_answer_cell = Some ''B1'', qe_answer = ''Yes''\<rparr>]\<rparr>]\<rparr>)))"
    unfolding handle [OF m1]
    by (simp add: dict_get_def [of ?request] t1 pass scenario_questions)
  have b2: "request_buffer example_library ?bogus = Inr None"
    by (simp add: request_buffer_def)
  have a2: "dict_get ?q ''arguments'' (JObj []) = JObj []" by (simp add: dict_get_def)
  have n2: "dict_get ?q ''name'' JNull \<notin> set tool_names"
    by (simp add: names dict_get_def)
  have t2: "tools_call example_library ?bogus (JObj ?q) = Inl (UnknownTool (JStr ''bogus''))"
    using call [OF a2 b2, THEN conjunct2, rule_format, OF n2] by (simp add: dict_get_def)
  have m2: "dict_get ?bogus ''method'' JNull = JStr ''tools/call''" by (simp add: dict_get_def)
  have 2: "handle_request example_library (JObj ?bogus) =
     Inr (Failure (JInt 0) (- 32603) ''Internal error'' ''Unknown tool: bogus'')"
    unfolding handle [OF m2]
    by (simp add: dict_get_def [of ?bogus] t2)
  let ?r = "[(''name'', JStr ''extract_comments''), (''arguments'', JList [])]"
  let ?listed = "[(''method'', JStr ''tools/call''), (''params'', JObj ?r)]"
  have args: "\<And>request p. (\<forall>a. dict_get p ''arguments'' (JObj []) \<noteq> JObj a) \<Longrightarrow>
      tools_call example_library request (JObj p) =
        Inl (AttributeError
          (quote (type_name (dict_get p ''arguments'' (JObj []))) @
           '' object has no attribute '' @ quote ''get''))"
    using T by blast
  have a3: "\<forall>a. dict_get ?r ''arguments'' (JObj []) \<noteq> JObj a" by (simp add: dict_get_def)
  have t3: "tools_call example_library ?listed (JObj ?r) =
      Inl (AttributeError (quote ''list'' @ '' object has no attribute '' @ quote ''get''))"
    using args [OF a3, of ?listed] by (simp add: dict_get_def)
  have m3: "dict_get ?listed ''method'' JNull = JStr ''tools/call''" by (simp add: dict_get_def)
  have 3: "handle_request example_library (JObj ?listed) =
     Inr (Failure (JInt 0) (- 32603) ''Internal error''
            (quote ''list'' @ '' object has no attribute '' @ quote ''get''))"
    unfolding handle [OF m3]
    by (simp add: dict_get_def [of ?listed] t3)
  let ?padded = "[(''method'', JStr ''tools/call''), (''params'', JObj ?q),
                  (''fileContent'', JStr ''abc'')]"
  have decode: "\<And>request p a c m.
      dict_get p ''arguments'' (JObj []) = JObj a \<Longrightarrow>
      map_of request ''fileContent'' = Some c \<Longrightarrow> b64decode example_library c = Inl m \<Longrightarrow>
      tools_call example_library request (JObj p) = Inl (DecodeError m)"
    using T by blast
  have c4: "map_of ?padded ''fileContent'' = Some (JStr ''abc'')" by simp
  have d4: "b64decode example_library (JStr ''abc'') = Inl ''Incorrect padding''"
    by (simp add: example_library_def)
  have t4: "tools_call example_library ?padded (JObj ?q) = Inl (DecodeError ''Incorrect padding'')"
    by (rule decode [OF a2 c4 d4])
  have m4: "dict_get ?padded ''method'' JNull = JStr ''tools/call''" by (simp add: dict_get_def)
  have 4: "handle_request example_library (JObj ?padded) =
     Inr (Failure (JInt 0) (- 32603) ''Internal error'' ''Incorrect padding'')"
    unfolding handle [OF m4]
    by (simp add: dict_get_def [of ?padded] t4)
  from 1 2 3 4 show ?thesis by (intro conjI)
qed

text \<open>
  Claim C7 as stated fails on a call of the unknown tool "bogus" whose arguments are
  \<^verbatim>\<open>null\<close>: reading the file name from the arguments fails first, and the error of the
  response is that failure, not the unknown-tool error.
\<close>

theorem unknown_tool_with_null_arguments:
  "JStr ''bogus'' \<notin> set tool_names \<and>
   tools_call example_library
     [(''method'', JStr ''tools/call''),
      (''params'', JObj [(''name'', JStr ''bogus''), (''arguments'', JNull)])]
     (JObj [(''name'', JStr ''bogus''), (''arguments'', JNull)]) =
     Inl (AttributeError (quote ''NoneType'' @ '' object has no attribute '' @ quote ''get'')) \<and>
   handle_request example_library
     (JObj [(''method'', JStr ''tools/call''),
            (''params'', JObj [(''name'', JStr ''bogus''), (''arguments'', JNull)])]) =
     Inr (Failure (JInt 0) (- 32603) ''Internal error''
            (quote ''NoneType'' @ '' object has no attribute '' @ quote ''get''))"
  by (simp add: tool_names_eq tools_call_def dict_get_def no_attribute_def dispatch_def)

section \<open>Responses and their ids\<close>

lemma respond_parse_failure:
  "json_loads lib line = Inl m \<Longrightarrow>
   respond lib line = Failure (JInt 0) (- 32700) ''Parse error'' m"
  by (simp add: respond_def parse_error_def)

lemma respond_not_object:
  assumes "json_loads lib line = Inr v" and "\<forall>d. v \<noteq> JObj d"
  shows "respond lib line =
     Failure (JInt 0) (- 32700) ''Parse error''
       (quote (type_name v) @ '' object has no attribute '' @ quote ''get'')"
  using assms by (cases v) (simp_all add: respond_def parse_error_def no_attribute_def)

lemma respond_object:
  assumes "json_loads lib line = Inr (JObj d)"
  shows "respond lib line =
     (case dispatch lib d (dict_get d ''method'' JNull) (dict_get d ''params'' (JObj [])) of
        Inr p \<Rightarrow> Success (dict_get d ''id'' (JInt 0)) p
      | Inl e \<Rightarrow> Failure (dict_get d ''id'' (JInt 0)) (- 32603) ''Internal error'' (str_exn lib e))"
  using assms by (simp add: respond_def Let_def)

lemma dispatch_unknown_method:
  "m \<noteq> JStr ''initialize'' \<Longrightarrow> m \<noteq> JStr ''tools/list'' \<Longrightarrow> m \<noteq> JStr ''tools/call'' \<Longrightarrow>
   dispatch lib d m params = Inl (UnknownMethod m)"
  by (simp add: dispatch_def)

lemma request_buffer_decoded:
  "map_of d ''fileContent'' = Some c \<Longrightarrow> b64decode lib c = Inr b \<Longrightarrow>
   request_buffer lib d = Inr (Some b)"
  by (simp add: request_buffer_def)

lemma load_failure:
  "load_workbook lib b = Inl m \<Longrightarrow> load_workbook_from_buffer lib (Some b) = Inl (LoadError m)"
  by (simp add: load_workbook_from_buffer_def)

lemma dispatch_call_failures:
  assumes "dict_get p ''arguments'' (JObj []) = JObj a"
    and "map_of d ''fileContent'' = Some c" and "b64decode lib c = Inr b"
  shows "(dict_get p ''name'' JNull \<notin> set tool_names \<longrightarrow>
      dispatch lib d (JStr ''tools/call'') (JObj p) = Inl (UnknownTool (dict_get p ''name'' JNull))) \<and>
     (dict_get p ''name'' JNull \<in> set tool_names \<longrightarrow>
        (\<forall>m. load_workbook lib b = Inl m \<longrightarrow>
           dispatch lib d (JStr ''tools/call'') (JObj p) = Inl (LoadError m)))"
proof -
  have t: "tools_call lib d (JObj p) =
      map_sum id Content
        (call_tool lib (dict_get p ''name'' JNull) (dict_get a ''filename'' JNull) (Some b))"
    by (rule tools_call_well_formed [OF assms(1) request_buffer_decoded [OF assms(2,3)]])
  have d: "dispatch lib d (JStr ''tools/call'') (JObj p) = tools_call lib d (JObj p)"
    by (simp add: dispatch_def)
  show ?thesis
    unfolding d t
    by (auto simp: call_tool_unknown call_tool_load_failure load_failure)
qed

text \<open>
  Claim C6, as amended.  The response to a line is determined by what the line decodes
  to.  A line that is not valid JSON gets an error with id 0, code -32700 and the
  message of the decoder as data.  A line that is valid JSON but not an object gets an
  error with id 0 and code -32700 too, its data the message of the failed attribute
  access.  A line that is an object gets a response with the id of the request, 0 when
  it has none: the result when dispatch succeeds, and when dispatch fails an error with
  code -32603 whose data is the string of the exception; so for an unknown method, for
  an unknown tool, and for a buffer that does not load.
\<close>

theorem respond_cases:
  "(\<forall>m. json_loads lib line = Inl m \<longrightarrow>
      respond lib line = Failure (JInt 0) (- 32700) ''Parse error'' m) \<and>
   (\<forall>v. json_loads lib line = Inr v \<longrightarrow> (\<forall>d. v \<noteq> JObj d) \<longrightarrow>
      respond lib line =
        Failure (JInt 0) (- 32700) ''Parse error''
          (quote (type_name v) @ '' object has no attribute '' @ quote ''get'')) \<and>
   (\<forall>d. json_loads lib line = Inr (JObj d) \<longrightarrow>
      response_id (respond lib line) = (case map_of d ''id'' of None \<Rightarrow> JInt 0 | Some i \<Rightarrow> i) \<and>
      (\<forall>p. dispatch lib d (dict_get d ''method'' JNull) (dict_get d ''params'' (JObj [])) = Inr p \<longrightarrow>
         respond lib line = Success (dict_get d ''id'' (JInt 0)) p) \<and>
      (\<forall>e. dispatch lib d (dict_get d ''method'' JNull) (dict_get d ''params'' (JObj [])) = Inl e \<longrightarrow>
         respond lib line =
           Failure (dict_get d ''id'' (JInt 0)) (- 32603) ''Internal error'' (str_exn lib e)) \<and>
      (dict_get d ''method'' JNull \<noteq> JStr ''initialize'' \<and>
       dict_get d ''method'' JNull \<noteq> JStr ''tools/list'' \<and>
       dict_get d ''method'' JNull \<noteq> JStr ''tools/call'' \<longrightarrow>
         respond lib line =
           Failure (dict_get d ''id'' (JInt 0)) (- 32603) ''Internal error''
             (''Unknown method: '' @ format_json lib (dict_get d ''method'' JNull))) \<and>
      (\<forall>p a c b.
         dict_get d ''method'' JNull = JStr ''tools/call'' \<longrightarrow>
         dict_get d ''params'' (JObj []) = JObj p \<longrightarrow>
         dict_get p ''arguments'' (JObj []) = JObj a \<longrightarrow>
         map_of d ''fileContent'' = Some c \<longrightarrow> b64decode lib c = Inr b \<longrightarrow>
         (dict_get p ''name'' JNull \<notin> set tool_names \<longrightarrow>
            respond lib line =
              Failure (dict_get d ''id'' (JInt 0)) (- 32603) ''Internal error''
                (''Unknown tool: '' @ format_json lib (dict_get p ''name'' JNull))) \<and>
         (dict_get p ''name'' JNull \<in> set tool_names \<longrightarrow>
            (\<forall>m. load_workbook lib b = Inl m \<longrightarrow>
               respond lib line =
                 Failure (dict_get d ''id'' (JInt 0)) (- 32603) ''Internal error'' m))))"
proof (intro conjI allI impI)
  fix m assume "json_loads lib line = Inl m"
  then show "respond lib line = Failure (JInt 0) (- 32700) ''Parse error'' m"
    by (rule respond_parse_failure)
next
  fix v assume "json_loads lib line = Inr v" and "\<forall>d. v \<noteq> JObj d"
  then show "respond lib line =
        Failure (JInt 0) (- 32700) ''Parse error''
          (quote (type_name v) @ '' object has no attribute '' @ quote ''get'')"
    by (rule respond_not_object)
next
  fix d assume "json_loads lib line = Inr (JObj d)"
  then show "response_id (respond lib line) =
      (case map_of d ''id'' of None \<Rightarrow> JInt 0 | Some i \<Rightarrow> i)"
    by (simp add: respond_object dict_get_def split: sum.splits)
next
  fix d p assume "json_loads lib line = Inr (JObj d)"
    and "dispatch lib d (dict_get d ''method'' JNull) (dict_get d ''params'' (JObj [])) = Inr p"
  then show "respond lib line = Success (dict_get d ''id'' (JInt 0)) p"
    by (simp add: respond_object)
next
  fix d e assume "json_loads lib line = Inr (JObj d)"
    and "dispatch lib d (dict_get d ''method'' JNull) (dict_get d ''params'' (JObj [])) = Inl e"
  then show "respond lib line =
      Failure (dict_get d ''id'' (JInt 0)) (- 32603) ''Internal error'' (str_exn lib e)"
    by (simp add: respond_object)
next
  fix d assume "json_loads lib line = Inr (JObj d)"
    and "dict_get d ''method'' JNull \<noteq> JStr ''initialize'' \<and>
       dict_get d ''method'' JNull \<noteq> JStr ''tools/list'' \<and>
       dict_get d ''method'' JNull \<noteq> JStr ''tools/call''"
  then show "respond lib line =
           Failure (dict_get d ''id'' (JInt 0)) (- 32603) ''Internal error''
             (''Unknown method: '' @ format_json lib (dict_get d ''method'' JNull))"
    by (simp add: respond_object dispatch_unknown_method)
next
  fix d p a c b
  assume l: "json_loads lib line = Inr (JObj d)"
    and m: "dict_get d ''method'' JNull = JStr ''tools/call''"
    and p: "dict_get d ''params'' (JObj []) = JObj p"
    and a: "dict_get p ''arguments'' (JObj []) = JObj a"
    and c: "map_of d ''fileContent'' = Some c" and b: "b64decode lib c = Inr b"
    and n: "dict_get p ''name'' JNull \<notin> set tool_names"
  show "respond lib line =
              Failure (dict_get d ''id'' (JInt 0)) (- 32603) ''Internal error''
                (''Unknown tool: '' @ format_json lib (dict_get p ''name'' JNull))"
    using dispatch_call_failures [OF a c b] n by (simp add: respond_object [OF l] m p)
next
  fix d p a c b m
  assume l: "json_loads lib line = Inr (JObj d)"
    and me: "dict_get d ''method'' JNull = JStr ''tools/call''"
    and p: "dict_get d ''params'' (JObj []) = JObj p"
    and a: "dict_get p ''arguments'' (JObj []) = JObj a"
    and c: "map_of d ''fileContent'' = Some c" and b: "b64decode lib c = Inr b"
    and n: "dict_get p ''name'' JNull \<in> set tool_names"
    and f: "load_workbook lib b = Inl m"
  show "respond lib line = Failure (dict_get d ''id'' (JInt 0)) (- 32603) ''Internal error'' m"
    using dispatch_call_failures [OF a c b] n f by (simp add: respond_object [OF l] me p)
qed


lemma loads_examples:
  "json_loads example_library ''x'' = Inl ''Expecting value: line 1 column 1 (char 0)''"
  "json_loads example_library ''[]'' = Inr (JList [])"
  "json_loads example_library ''{}'' = Inr (JObj [])"
  "json_loads example_library list_line = Inr (JObj [(''id'', JInt 7), (''method'', JStr ''tools/list'')])"
  "json_loads example_library call_line =
     Inr (JObj [(''id'', JInt 9), (''method'', JStr ''tools/call''),
                (''params'', JObj [(''name'', JStr ''extract_comments'')]),
                (''fileContent'', JStr ''bm90IGEgemlw'')])"
  by (simp_all add: example_library_def list_line_def call_line_def dquote_def list_request_def
      call_request_def)

theorem respond_cases_witness:
  "respond example_library ''x'' =
     Failure (JInt 0) (- 32700) ''Parse error'' ''Expecting value: line 1 column 1 (char 0)'' \<and>
   respond example_library ''{}'' =
     Failure (JInt 0) (- 32603) ''Internal error'' ''Unknown method: None'' \<and>
   response_id (respond example_library list_line) = JInt 7 \<and>
   respond example_library call_line =
     Failure (JInt 9) (- 32603) ''Internal error'' ''File is not a zip file''"
proof (intro conjI)
  show "respond example_library ''x'' =
     Failure (JInt 0) (- 32700) ''Parse error'' ''Expecting value: line 1 column 1 (char 0)''"
    using respond_cases [of example_library "''x''"] loads_examples(1) by blast
  have "respond example_library ''{}'' =
     Failure (dict_get [] ''id'' (JInt 0)) (- 32603) ''Internal error''
       (''Unknown method: '' @ format_json example_library (dict_get [] ''method'' JNull))"
    using respond_cases [of example_library "''{}''"] loads_examples(3)
    by (simp add: dict_get_def)
  then show "respond example_library ''{}'' =
     Failure (JInt 0) (- 32603) ''Internal error'' ''Unknown method: None''"
    by (simp add: dict_get_def)
  have "response_id (respond example_library list_line) =
      (case map_of [(''id'', JInt 7), (''method'', JStr ''tools/list'')] ''id'' of
         None \<Rightarrow> JInt 0 | Some i \<Rightarrow> i)"
    using respond_cases [of example_library list_line] loads_examples(4) by blast
  then show "response_id (respond example_library list_line) = JInt 7" by simp
  let ?p = "[(''name'', JStr ''extract_comments'')]"
  let ?d = "[(''id'', JInt 9), (''method'', JStr ''tools/call''), (''params'', JObj ?p),
             (''fileContent'', JStr ''bm90IGEgemlw'')]"
  have m: "dict_get ?d ''method'' JNull = JStr ''tools/call''" by (simp add: dict_get_def)
  have p: "dict_get ?d ''params'' (JObj []) = JObj ?p" by (simp add: dict_get_def)
  have a: "dict_get ?p ''arguments'' (JObj []) = JObj []" by (simp add: dict_get_def)
  have c: "map_of ?d ''fileContent'' = Some (JStr ''bm90IGEgemlw'')" by simp
  have b: "b64decode example_library (JStr ''bm90IGEgemlw'') = Inr ''not a zip''"
    by (simp add: example_library_def)
  have n: "dict_get ?p ''name'' JNull \<in> set tool_names"
    by (simp add: dict_get_def tool_names_eq)
  have f: "load_workbook example_library ''not a zip'' = Inl ''File is not a zip file''"
    by (simp add: example_library_def)
  have "respond example_library call_line =
      Failure (dict_get ?d ''id'' (JInt 0)) (- 32603) ''Internal error'' ''File is not a zip file''"
    using respond_cases [of example_library call_line] loads_examples(5) m p a c b n f by blast
  then show "respond example_library call_line =
     Failure (JInt 9) (- 32603) ''Internal error'' ''File is not a zip file''"
    by (simp add: dict_get_def)
qed

text \<open>
  Claim C6 as stated fails on the line \<^verbatim>\<open>[]\<close>: it is valid JSON, the failure arises in
  \<open>handle_request\<close>, and the response has the code -32700, not -32603.
\<close>

theorem list_request_reported_as_parse_error:
  "json_loads example_library ''[]'' = Inr (JList []) \<and>
   handle_request example_library (JList []) =
     Inl (AttributeError (quote ''list'' @ '' object has no attribute '' @ quote ''get'')) \<and>
   respond example_library ''[]'' =
     Failure (JInt 0) (- 32700) ''Parse error''
       (quote ''list'' @ '' object has no attribute '' @ quote ''get'')"
  by (simp add: loads_examples respond_def parse_error_def no_attribute_def)

end
